(* ===== verification/Prelude.thy ===== *)
theory Prelude
  imports Main "HOL-Library.Word"
begin

text \<open>
  Shared vocabulary of the development: the undefined behaviours of the C++ code that
  the model turns into error values, the result type that carries them, the checked
  forms of \<^verbatim>\<open>std::vector::operator[]\<close>, \<^verbatim>\<open>pop_back\<close> and \<^verbatim>\<open>int\<close> increment,
  the \<^verbatim>\<open>size_t\<close> decrement used by the enumerator, the configuration constants of
  \<^verbatim>\<open>benchmark.cpp\<close>, and the list and arithmetic lemmas the component theories share.
\<close>

section \<open>Errors and results\<close>

text \<open>
  The program has no error handling of its own: every failure is undefined behaviour
  (an out-of-range subscript of a \<^verbatim>\<open>std::vector\<close>, \<^verbatim>\<open>pop_back\<close> on an empty
  vector, the dereference of an empty \<^verbatim>\<open>shared_ptr\<close>, a signed \<^verbatim>\<open>int\<close> overflow).
  The model makes each of them an error value, so that a theorem saying the result is
  \<open>Inr\<close> says the C++ code never reaches it.
\<close>

datatype error = OutOfRange | EmptyPopBack | NullDeref | SignedOverflow

type_synonym 'a result = "error + 'a"

named_theorems result_simps "evaluation rules of the checked C++ primitives"

definition bind_res :: "'a result \<Rightarrow> ('a \<Rightarrow> 'b result) \<Rightarrow> 'b result" where
  "bind_res m f = (case m of Inl e \<Rightarrow> Inl e | Inr x \<Rightarrow> f x)"

subsection \<open>Checked container primitives\<close>

text \<open>\<^verbatim>\<open>v[i]\<close> on a \<^verbatim>\<open>std::vector\<close>: defined only below \<^verbatim>\<open>v.size()\<close>.\<close>

definition vec_at :: "'a list \<Rightarrow> nat \<Rightarrow> 'a result" where
  "vec_at xs i = (if i < length xs then Inr (xs ! i) else Inl OutOfRange)"

text \<open>\<^verbatim>\<open>v.pop_back()\<close>: defined only on a non-empty vector.\<close>

definition pop_back :: "'a list \<Rightarrow> 'a list result" where
  "pop_back xs = (if xs = [] then Inl EmptyPopBack else Inr (butlast xs))"

subsection \<open>Machine integers\<close>

text \<open>
  \<^verbatim>\<open>int\<close> is 32 bits wide on the platforms the benchmark targets; \<^verbatim>\<open>x++\<close> on
  \<^verbatim>\<open>INT_MAX\<close> is undefined behaviour.
\<close>

definition INT_MAX :: int where
  "INT_MAX = 2 ^ 31 - 1"

definition int_inc :: "int \<Rightarrow> int result" where
  "int_inc x = (if x = INT_MAX then Inl SignedOverflow else Inr (x + 1))"

text \<open>
  \<^verbatim>\<open>size_t\<close> is \<^verbatim>\<open>64 word\<close>. The enumerator compares against
  \<^verbatim>\<open>number_of_dimension_tables - 1\<close>, an unsigned subtraction that wraps at zero.
\<close>

definition size_t_minus_one :: "nat \<Rightarrow> nat" where
  "size_t_minus_one n = unat (word_of_nat n - (1 :: 64 word))"

subsection \<open>Loops that may fail\<close>

text \<open>A \<^verbatim>\<open>for\<close> loop over a list whose body may hit undefined behaviour.\<close>

fun res_fold :: "('s \<Rightarrow> 'a \<Rightarrow> 's result) \<Rightarrow> 'a list \<Rightarrow> 's \<Rightarrow> 's result" where
  "res_fold f [] s = Inr s"
| "res_fold f (x # xs) s = bind_res (f s x) (res_fold f xs)"

section \<open>Configuration constants\<close>

text \<open>The \<^verbatim>\<open>constexpr int\<close> parameters at the top of \<^verbatim>\<open>benchmark.cpp\<close>.\<close>

definition number_of_tuples_in_dimension_tables :: int where
  "number_of_tuples_in_dimension_tables = 100"

definition max_number_of_dimension_tables :: int where
  "max_number_of_dimension_tables = 10"

definition number_of_repetitions :: int where
  "number_of_repetitions = 10"

definition number_of_tuples_in_fact_table :: int where
  "number_of_tuples_in_fact_table = 50000000"

section \<open>Lemmas on the primitives\<close>

lemma bind_res_simps [simp, result_simps]:
  "bind_res (Inl e) f = Inl e"
  "bind_res (Inr x) f = f x"
  by (simp_all add: bind_res_def)

lemma bind_res_eq_Inr:
  "bind_res m f = Inr y \<longleftrightarrow> (\<exists>x. m = Inr x \<and> f x = Inr y)"
  by (cases m) simp_all

lemma bind_res_cong [fundef_cong]:
  "m = m' \<Longrightarrow> (\<And>x. m' = Inr x \<Longrightarrow> f x = g x) \<Longrightarrow> bind_res m f = bind_res m' g"
  by (cases m') auto

lemma vec_at_in_range [simp, result_simps]: "i < length xs \<Longrightarrow> vec_at xs i = Inr (xs ! i)"
  by (simp add: vec_at_def)

lemma vec_at_out_of_range [simp, result_simps]:
  "\<not> i < length xs \<Longrightarrow> vec_at xs i = Inl OutOfRange"
  by (simp add: vec_at_def)

lemma pop_back_snoc [simp, result_simps]: "pop_back (xs @ [x]) = Inr xs"
  by (simp add: pop_back_def)

lemma int_inc_below [simp, result_simps]: "x < INT_MAX \<Longrightarrow> int_inc x = Inr (x + 1)"
  by (simp add: int_inc_def)

lemma INT_MAX_int32: "sint (word_of_int INT_MAX :: 32 word) = INT_MAX"
  by (simp add: INT_MAX_def)

lemma size_t_minus_one_pos:
  assumes "0 < n" "n < 2 ^ 64"
  shows "size_t_minus_one n = n - 1"
proof -
  from assms(1) have "word_of_nat n - (1 :: 64 word) = word_of_nat (n - 1)"
    by (simp add: of_nat_diff)
  with assms(2) show ?thesis
    by (simp add: size_t_minus_one_def unat_of_nat)
qed

lemma size_t_minus_one_zero: "size_t_minus_one 0 = 2 ^ 64 - 1"
  unfolding size_t_minus_one_def by (simp add: unsigned_minus_1_eq_mask mask_eq_exp_minus_1)

lemma Suc_size_t_minus_one:
  "0 < n \<Longrightarrow> n < 2 ^ 64 \<Longrightarrow> Suc (size_t_minus_one n) = n"
  by (simp add: size_t_minus_one_pos)

lemma res_fold_append:
  "res_fold f (xs @ ys) s = bind_res (res_fold f xs s) (res_fold f ys)"
  by (induction xs arbitrary: s) (simp_all add: bind_res_def split: sum.split)

lemma res_fold_snoc:
  "res_fold f (xs @ [x]) s = bind_res (res_fold f xs s) (\<lambda>s'. f s' x)"
  by (simp add: res_fold_append bind_res_def split: sum.split)

lemma list_update_last [simp]: "length xs = i \<Longrightarrow> (xs @ [y])[i := z] = xs @ [z]"
  by (metis list_update_length)

lemma nth_last [simp]: "length xs = i \<Longrightarrow> (xs @ [y]) ! i = y"
  by (metis nth_append_length)

lemma concat_replicate_snoc: "concat (replicate i xs) @ xs = xs @ concat (replicate i xs)"
  by (induction i) simp_all

lemma replicate_split:
  assumes "i < n"
  shows "replicate n x = replicate i x @ x # replicate (n - Suc i) x"
proof -
  from assms have "n = i + Suc (n - Suc i)" by simp
  then show ?thesis by (metis replicate_add replicate_Suc)
qed

lemma nat_diff_add_int: "nat (L - (c + int m)) = nat (L - c) - m"
  by arith

lemma length_concat_map_const:
  "(\<And>x. x \<in> set xs \<Longrightarrow> length (f x) = m) \<Longrightarrow> length (concat (map f xs)) = length xs * m"
  by (induction xs) auto

end
