(* ===== verification/Enumerator.thy ===== *)
theory Enumerator
  imports Prelude
begin

text \<open>
  The bounded cartesian enumerator: \<^verbatim>\<open>get_fact_table\<close> of \<^verbatim>\<open>benchmark.cpp\<close> with
  its recursive lambda \<^verbatim>\<open>rec_pointer\<close>. The lambda's captured variables
  (\<^verbatim>\<open>current_tuple\<close>, \<^verbatim>\<open>fact_table\<close>, \<^verbatim>\<open>tuples_in_fact_table\<close>, and whatever the
  callback \<^verbatim>\<open>add_entry_to_tuple\<close> closes over) are one state record, passed in and
  returned. The callback is a parameter: it gets the dimension and row index and the
  callback's own captured state, and returns the value to append to the tuple under
  construction together with its new captured state, or an error. The theory also
  holds the reference enumeration of index tuples in lexicographic order, and proves
  that the enumerator yields exactly the first \<^verbatim>\<open>L\<close> tuples of it.
\<close>

section \<open>The enumerator\<close>

text \<open>\<^verbatim>\<open>template<typename T> class FactTableObject { vector<T> relations_; }\<close>\<close>

datatype 'a FactTableObject = FactTableObject (relations: "'a list")

text \<open>The variables the recursive lambda captures by reference.\<close>

record ('a, 'c) enum_state =
  current_tuple :: "'a list"
  fact_table :: "'a FactTableObject list"
  tuples_in_fact_table :: int
  captured :: 'c

text \<open>
  \<^verbatim>\<open>rec_pointer(dimension_table_index, rec_function)\<close> together with the
  \<^verbatim>\<open>for\<close> loop over \<^verbatim>\<open>tuple_index\<close>: \<open>rec_pointer k L n add d j s\<close> is the loop
  at dimension \<open>d\<close> from \<open>tuple_index = j\<close> on, where \<open>k\<close> is the loop bound
  \<^verbatim>\<open>number_of_tuples_in_dimension_tables\<close>, \<open>L\<close> the cap
  \<^verbatim>\<open>number_of_tuples_in_fact_table\<close> and \<open>n\<close> the parameter
  \<^verbatim>\<open>number_of_dimension_tables\<close>. The cap is checked before each candidate, a
  \<^verbatim>\<open>return\<close> leaves only the current level's loop, the descent compares with the
  \<^verbatim>\<open>size_t\<close> value \<^verbatim>\<open>n - 1\<close>, and \<^verbatim>\<open>pop_back\<close> follows both the descent and the
  emission. The recursion stops because the depth is bounded by the \<^verbatim>\<open>size_t\<close>
  value of \<^verbatim>\<open>n - 1\<close> and the loop index by \<open>k\<close>.
\<close>

function rec_pointer ::
  "nat \<Rightarrow> int \<Rightarrow> nat \<Rightarrow> (nat \<Rightarrow> nat \<Rightarrow> 'c \<Rightarrow> ('a \<times> 'c) result) \<Rightarrow> nat \<Rightarrow> nat \<Rightarrow>
   ('a, 'c) enum_state \<Rightarrow> ('a, 'c) enum_state result" where
  "rec_pointer k L n add d j s =
    (if j < k then
       (if L \<le> tuples_in_fact_table s then Inr s
        else bind_res (add d j (captured s)) (\<lambda>(v, c).
          let s1 = s\<lparr>current_tuple := current_tuple s @ [v], captured := c\<rparr> in
          bind_res
            (if d < size_t_minus_one n then rec_pointer k L n add (Suc d) 0 s1
             else bind_res (int_inc (tuples_in_fact_table s1)) (\<lambda>cnt.
                    Inr (s1\<lparr>fact_table := fact_table s1 @ [FactTableObject (current_tuple s1)],
                           tuples_in_fact_table := cnt\<rparr>)))
            (\<lambda>s2. bind_res (pop_back (current_tuple s2)) (\<lambda>ct.
                    rec_pointer k L n add d (Suc j) (s2\<lparr>current_tuple := ct\<rparr>)))))
     else Inr s)"
  by pat_completeness auto
termination
  by (relation "measures [\<lambda>(k, L, n, add, d, j, s). Suc (size_t_minus_one n) - d,
                          \<lambda>(k, L, n, add, d, j, s). k - j]") auto

text \<open>
  \<^verbatim>\<open>get_fact_table(n, current_tuple, add_entry_to_tuple)\<close>: an empty fact table, the
  counter at \<open>0\<close>, the call \<^verbatim>\<open>rec_pointer(0, rec_pointer)\<close>; the result is the fact
  table, and through the references the final \<^verbatim>\<open>current_tuple\<close> and callback state.
\<close>

definition get_fact_table ::
  "nat \<Rightarrow> int \<Rightarrow> nat \<Rightarrow> 'a list \<Rightarrow> (nat \<Rightarrow> nat \<Rightarrow> 'c \<Rightarrow> ('a \<times> 'c) result) \<Rightarrow> 'c \<Rightarrow>
   ('a FactTableObject list \<times> 'a list \<times> 'c) result" where
  "get_fact_table k L n tuple0 add c =
     bind_res (rec_pointer k L n add 0 0
                \<lparr>current_tuple = tuple0, fact_table = [], tuples_in_fact_table = 0, captured = c\<rparr>)
       (\<lambda>s. Inr (fact_table s, current_tuple s, captured s))"

section \<open>The reference enumeration\<close>

text \<open>
  All index tuples of length \<open>n\<close> over rows \<open>0..k-1\<close>, column 0 varying slowest:
  the full cartesian product in lexicographic order.
\<close>

fun lex_tuples :: "nat \<Rightarrow> nat \<Rightarrow> nat list list" where
  "lex_tuples 0 k = [[]]"
| "lex_tuples (Suc n) k = concat (map (\<lambda>j. map (Cons j) (lex_tuples n k)) [0..<k])"

text \<open>Encoding an index tuple column by column, starting at dimension \<open>d\<close>.\<close>

fun encode_from :: "(nat \<Rightarrow> nat \<Rightarrow> 'a) \<Rightarrow> nat \<Rightarrow> nat list \<Rightarrow> 'a list" where
  "encode_from f d [] = []"
| "encode_from f d (j # js) = f d j # encode_from f (Suc d) js"

text \<open>
  A callback that, on the captured state \<open>c\<close>, returns \<open>f d j\<close> for every dimension
  below \<open>D\<close> and row below \<open>k\<close> and leaves \<open>c\<close> unchanged.
\<close>

definition pure_on ::
  "nat \<Rightarrow> nat \<Rightarrow> (nat \<Rightarrow> nat \<Rightarrow> 'c \<Rightarrow> ('a \<times> 'c) result) \<Rightarrow> (nat \<Rightarrow> nat \<Rightarrow> 'a) \<Rightarrow> 'c \<Rightarrow> bool" where
  "pure_on D k add f c \<longleftrightarrow> (\<forall>d < D. \<forall>j < k. add d j c = Inr (f d j, c))"

text \<open>Strict lexicographic order on index tuples of equal length.\<close>

definition lex_less :: "nat list \<Rightarrow> nat list \<Rightarrow> bool" where
  "lex_less xs ys \<longleftrightarrow> (xs, ys) \<in> lex {(a, b). a < b}"

text \<open>Proof devices: the encoded tuples below dimension \<open>d\<close>, and the tuples a loop
  level still owes from candidate \<open>j\<close> on.\<close>

function lex_from :: "(nat \<Rightarrow> nat \<Rightarrow> 'a) \<Rightarrow> nat \<Rightarrow> nat \<Rightarrow> nat \<Rightarrow> 'a list list" where
  "lex_from f D k d =
     (if d < D then concat (map (\<lambda>j. map (Cons (f d j)) (lex_from f D k (Suc d))) [0..<k])
      else [[]])"
  by pat_completeness auto
termination
  by (relation "measure (\<lambda>(f, D, k, d). D - d)") auto

definition level_out ::
  "(nat \<Rightarrow> nat \<Rightarrow> 'a) \<Rightarrow> nat \<Rightarrow> nat \<Rightarrow> nat \<Rightarrow> nat \<Rightarrow> 'a list \<Rightarrow> 'a list list" where
  "level_out f D k d j pre =
     concat (map (\<lambda>j'. map (\<lambda>t. pre @ f d j' # t) (lex_from f D k (Suc d))) [j..<k])"

text \<open>The state after the tuples \<open>xs\<close> were offered to the capped emission.\<close>

definition emitted :: "('a, 'c) enum_state \<Rightarrow> int \<Rightarrow> 'a list list \<Rightarrow> ('a, 'c) enum_state" where
  "emitted s L xs =
     s\<lparr>fact_table := fact_table s @ map FactTableObject (take (nat (L - tuples_in_fact_table s)) xs),
       tuples_in_fact_table := tuples_in_fact_table s
          + int (min (nat (L - tuples_in_fact_table s)) (length xs))\<rparr>"

section \<open>Lemmas\<close>

declare rec_pointer.simps [simp del] lex_from.simps [simp del]

subsection \<open>The reference enumeration\<close>

lemma length_lex_tuples [simp]: "length (lex_tuples n k) = k ^ n"
  by (induction n) (simp_all add: length_concat_map_const)

lemma length_encode_from [simp]: "length (encode_from f d js) = length js"
  by (induction js arbitrary: d) simp_all

lemma lex_from_lex_tuples:
  "lex_from f D k d = map (encode_from f d) (lex_tuples (D - d) k)"
proof (induction f D k d rule: lex_from.induct)
  case (1 f D k d)
  show ?case
  proof (cases "d < D")
    case True
    then have "D - d = Suc (D - Suc d)" by simp
    with True "1.IH" show ?thesis
      by (auto simp: lex_from.simps [of f D k d] map_concat o_def
               intro!: arg_cong [where f = concat] map_cong)
  next
    case False
    then show ?thesis by (simp add: lex_from.simps [of f D k d])
  qed
qed

lemma lex_less_Cons_same [simp]: "lex_less (j # xs) (j # ys) \<longleftrightarrow> lex_less xs ys"
  by (simp add: lex_less_def)

lemma lex_less_Cons_less: "j < j' \<Longrightarrow> length xs = length ys \<Longrightarrow> lex_less (j # xs) (j' # ys)"
  by (simp add: lex_less_def)

lemma set_lex_tuples: "set (lex_tuples n k) = {t. length t = n \<and> set t \<subseteq> {..<k}}"
proof (induction n)
  case 0
  then show ?case by auto
next
  case (Suc n)
  show ?case
  proof
    show "set (lex_tuples (Suc n) k) \<subseteq> {t. length t = Suc n \<and> set t \<subseteq> {..<k}}"
      using Suc.IH by auto
    show "{t. length t = Suc n \<and> set t \<subseteq> {..<k}} \<subseteq> set (lex_tuples (Suc n) k)"
      using Suc.IH by (auto simp: length_Suc_conv)
  qed
qed

lemma sorted_blocks:
  assumes "sorted_wrt lex_less T" and "\<forall>t \<in> set T. length t = m" and "sorted_wrt (<) js"
  shows "sorted_wrt lex_less (concat (map (\<lambda>j. map (Cons j) T) js))"
  using assms(3)
proof (induction js)
  case Nil
  then show ?case by simp
next
  case (Cons j js)
  have block: "sorted_wrt lex_less (map (Cons j) T)"
    using assms(1) by (simp add: sorted_wrt_map)
  have cross: "lex_less x y" if "x \<in> set (map (Cons j) T)"
      and "y \<in> set (concat (map (\<lambda>j. map (Cons j) T) js))" for x y
    using that Cons.prems assms(2) by (auto intro: lex_less_Cons_less)
  show ?case
    using Cons block cross by (simp add: sorted_wrt_append del: set_concat set_map)
qed

lemma lex_tuples_sorted: "sorted_wrt lex_less (lex_tuples n k)"
proof (induction n)
  case 0
  then show ?case by simp
next
  case (Suc n)
  have "\<forall>t \<in> set (lex_tuples n k). length t = n" by (simp add: set_lex_tuples)
  then show ?case
    unfolding lex_tuples.simps(2) by (rule sorted_blocks [OF Suc.IH]) (simp add: sorted_wrt_upt)
qed

subsection \<open>Capped emission\<close>

lemma emitted_Nil [simp]: "emitted s L [] = s"
  by (simp add: emitted_def)

lemma emitted_append: "emitted (emitted s L xs) L ys = emitted s L (xs @ ys)"
  by (simp add: emitted_def nat_diff_add_int take_append min_def)

lemma emitted_sel [simp]:
  "current_tuple (emitted s L xs) = current_tuple s"
  "captured (emitted s L xs) = captured s"
  by (simp_all add: emitted_def)

lemma emitted_current_tuple_upd:
  "(emitted s L xs)\<lparr>current_tuple := t\<rparr> = emitted (s\<lparr>current_tuple := t\<rparr>) L xs"
  by (simp add: emitted_def)

lemma emitted_capped:
  "L \<le> tuples_in_fact_table s \<Longrightarrow> emitted s L xs = s"
  by (simp add: emitted_def)

lemma emitted_single:
  "tuples_in_fact_table s < L \<Longrightarrow>
   emitted s L [x] = s\<lparr>fact_table := fact_table s @ [FactTableObject x],
                         tuples_in_fact_table := tuples_in_fact_table s + 1\<rparr>"
  by (simp add: emitted_def)

subsection \<open>The owed tuples of one loop level\<close>

lemma level_out_empty: "\<not> j < k \<Longrightarrow> level_out f D k d j pre = []"
  by (simp add: level_out_def)

lemma level_out_first:
  "j < k \<Longrightarrow> level_out f D k d j pre =
     map (\<lambda>t. pre @ f d j # t) (lex_from f D k (Suc d)) @ level_out f D k d (Suc j) pre"
  by (simp add: level_out_def upt_conv_Cons)

lemma level_out_descend:
  "Suc d < D \<Longrightarrow>
   level_out f D k (Suc d) 0 (pre @ [v]) = map (\<lambda>t. pre @ v # t) (lex_from f D k (Suc d))"
  by (subst lex_from.simps [of f D k "Suc d"]) (simp add: level_out_def map_concat o_def)

lemma level_out_leaf:
  "\<not> Suc d < D \<Longrightarrow> map (\<lambda>t. pre @ v # t) (lex_from f D k (Suc d)) = [pre @ [v]]"
  by (subst lex_from.simps) simp

lemma level_out_top:
  "0 < D \<Longrightarrow> level_out f D k 0 0 pre = map (\<lambda>t. pre @ encode_from f 0 t) (lex_tuples D k)"
proof -
  assume "0 < D"
  then have "map ((@) pre) (lex_from f D k 0) = level_out f D k 0 0 pre"
    by (simp add: lex_from.simps [of f D k 0] level_out_def map_concat o_def)
  then show ?thesis by (simp add: lex_from_lex_tuples o_def)
qed

subsection \<open>Correctness of one loop level\<close>

text \<open>
  The central lemma: the loop at dimension \<open>d\<close>, started at candidate \<open>j\<close>, offers to
  the capped emission exactly the tuples that extend the current prefix by a row
  \<open>j' \<ge> j\<close> of dimension \<open>d\<close> and any rows of the dimensions below the depth
  bound, in lexicographic order; it restores the prefix and leaves the callback state
  alone. The depth bound is the \<^verbatim>\<open>size_t\<close> value of \<^verbatim>\<open>n - 1\<close> plus one.
\<close>

lemma rec_pointer_correct:
  assumes "pure_on (Suc (size_t_minus_one n)) k add f (captured s)"
    and "d < Suc (size_t_minus_one n)" and "L \<le> INT_MAX"
  shows "rec_pointer k L n add d j s =
     Inr (emitted s L (level_out f (Suc (size_t_minus_one n)) k d j (current_tuple s)))"
  using assms
proof (induction k L n add d j s rule: rec_pointer.induct)
  case (1 k L n add d j s)
  let ?D = "Suc (size_t_minus_one n)"
  let ?pre = "current_tuple s"
  show ?case
  proof (cases "j < k \<and> \<not> L \<le> tuples_in_fact_table s")
    case False
    then show ?thesis
      by (auto simp: rec_pointer.simps [of k L n add d j s] level_out_empty emitted_capped)
  next
    case True
    then have jk: "j < k" and cL: "\<not> L \<le> tuples_in_fact_table s" by auto
    have add: "add d j (captured s) = Inr (f d j, captured s)"
      using "1.prems"(1,2) jk by (simp add: pure_on_def)
    define s1 where "s1 = s\<lparr>current_tuple := ?pre @ [f d j], captured := captured s\<rparr>"
    define X1 where "X1 = map (\<lambda>t. ?pre @ f d j # t) (lex_from f ?D k (Suc d))"
    define inner where "inner = (if d < size_t_minus_one n then rec_pointer k L n add (Suc d) 0 s1
          else bind_res (int_inc (tuples_in_fact_table s1)) (\<lambda>cnt.
                 Inr (s1\<lparr>fact_table := fact_table s1 @ [FactTableObject (current_tuple s1)],
                        tuples_in_fact_table := cnt\<rparr>)))"
    have unfold: "rec_pointer k L n add d j s =
      bind_res inner (\<lambda>s2. bind_res (pop_back (current_tuple s2)) (\<lambda>ct.
          rec_pointer k L n add d (Suc j) (s2\<lparr>current_tuple := ct\<rparr>)))"
      using jk cL add by (simp add: rec_pointer.simps [of k L n add d j s] inner_def s1_def Let_def)
    have inner_eq: "inner = Inr (emitted s1 L X1)"
    proof (cases "d < size_t_minus_one n")
      case True
      have "rec_pointer k L n add (Suc d) 0 s1 =
            Inr (emitted s1 L (level_out f ?D k (Suc d) 0 (current_tuple s1)))"
        using "1.IH"(1) [OF jk cL add refl s1_def True] "1.prems" True by (simp add: s1_def)
      then show ?thesis using True by (simp add: inner_def X1_def s1_def level_out_descend)
    next
      case False
      then have x1: "X1 = [current_tuple s1]" by (simp add: X1_def s1_def level_out_leaf)
      have "tuples_in_fact_table s1 < INT_MAX" using cL "1.prems"(3) by (simp add: s1_def)
      with False x1 cL show ?thesis
        by (simp add: inner_def emitted_single s1_def)
    qed
    have pop: "pop_back (current_tuple (emitted s1 L X1)) = Inr ?pre" by (simp add: s1_def)
    have restore: "(emitted s1 L X1)\<lparr>current_tuple := ?pre\<rparr> = emitted s L X1"
      by (simp add: emitted_current_tuple_upd s1_def)
    have "rec_pointer k L n add d (Suc j) ((emitted s1 L X1)\<lparr>current_tuple := ?pre\<rparr>) =
          Inr (emitted ((emitted s1 L X1)\<lparr>current_tuple := ?pre\<rparr>) L (level_out f ?D k d (Suc j) ?pre))"
      using "1.IH"(2) [OF jk cL add refl s1_def inner_eq [unfolded inner_def] pop] "1.prems"
      by (simp add: s1_def)
    then have "rec_pointer k L n add d (Suc j) (emitted s L X1) =
          Inr (emitted (emitted s L X1) L (level_out f ?D k d (Suc j) ?pre))"
      unfolding restore .
    moreover have "rec_pointer k L n add d j s = rec_pointer k L n add d (Suc j) (emitted s L X1)"
      unfolding unfold inner_eq by (simp only: bind_res_simps pop restore)
    ultimately show ?thesis
      by (simp add: emitted_append level_out_first [OF jk] X1_def)
  qed
qed

subsection \<open>The enumerator as a whole\<close>

lemma get_fact_table_depth:
  assumes "pure_on (Suc (size_t_minus_one n)) k add f c" and "L \<le> INT_MAX"
  shows "get_fact_table k L n tuple0 add c =
    Inr (map (\<lambda>t. FactTableObject (tuple0 @ encode_from f 0 t))
           (take (nat L) (lex_tuples (Suc (size_t_minus_one n)) k)), tuple0, c)"
proof -
  let ?s0 = "\<lparr>current_tuple = tuple0, fact_table = [], tuples_in_fact_table = 0, captured = c\<rparr>"
  have "rec_pointer k L n add 0 0 ?s0 =
        Inr (emitted ?s0 L (level_out f (Suc (size_t_minus_one n)) k 0 0 tuple0))"
    using rec_pointer_correct [of n k add f ?s0 0 L 0] assms by simp
  then show ?thesis
    by (simp add: get_fact_table_def emitted_def level_out_top take_map)
qed

lemma rec_pointer_counter:
  assumes "pure_on (Suc (size_t_minus_one n)) k add f c" and "0 \<le> L" and "L \<le> INT_MAX"
  shows "\<exists>s. rec_pointer k L n add 0 0
              \<lparr>current_tuple = tuple0, fact_table = [], tuples_in_fact_table = 0, captured = c\<rparr> = Inr s
           \<and> tuples_in_fact_table s = min L (int k ^ Suc (size_t_minus_one n))
           \<and> tuples_in_fact_table s = int (length (fact_table s))"
proof -
  define D where "D = Suc (size_t_minus_one n)"
  let ?s0 = "\<lparr>current_tuple = tuple0, fact_table = [], tuples_in_fact_table = 0, captured = c\<rparr>"
  let ?xs = "level_out f D k 0 0 tuple0"
  have run: "rec_pointer k L n add 0 0 ?s0 = Inr (emitted ?s0 L ?xs)"
    using rec_pointer_correct [of n k add f ?s0 0 L 0] assms by (simp add: D_def)
  have "0 < D" by (simp add: D_def)
  then have len: "length ?xs = k ^ D"
    by (simp add: level_out_top)
  have "tuples_in_fact_table (emitted ?s0 L ?xs) = min L (int k ^ D)"
    using assms(2) by (simp add: emitted_def len of_nat_min of_nat_power)
  moreover have "tuples_in_fact_table (emitted ?s0 L ?xs) = int (length (fact_table (emitted ?s0 L ?xs)))"
    by (simp add: emitted_def)
  ultimately show ?thesis
    using run by (simp add: D_def)
qed

subsection \<open>Properties of the enumerator\<close>

text \<open>
  C1. Prefix property. For \<open>0 < n < 2^64\<close>, a callback that stores \<open>f d j\<close> for row
  \<open>j\<close> of dimension \<open>d\<close> without side effect, and a cap \<open>L\<close> that fits an
  \<^verbatim>\<open>int\<close>: \<^verbatim>\<open>get_fact_table\<close> returns, in order, the first \<open>L\<close> tuples of the
  full cartesian product of \<open>{0..k-1}^n\<close> in lexicographic order (column 0 slowest),
  each encoded column by column and appended to the incoming \<^verbatim>\<open>current_tuple\<close>; it
  hands \<^verbatim>\<open>current_tuple\<close> back unchanged and never fails.
\<close>

theorem get_fact_table_lex_prefix:
  assumes "0 < n" and "n < 2 ^ 64" and "pure_on n k add f c" and "L \<le> INT_MAX"
  shows "get_fact_table k L n tuple0 add c =
    Inr (map (\<lambda>t. FactTableObject (tuple0 @ encode_from f 0 t)) (take (nat L) (lex_tuples n k)),
         tuple0, c)"
proof -
  have "Suc (size_t_minus_one n) = n" using assms(1,2) by (rule Suc_size_t_minus_one)
  then show ?thesis using get_fact_table_depth [of n k add f c L tuple0] assms(3,4) by simp
qed

theorem get_fact_table_lex_prefix_witness:
  "0 < (2::nat) \<and> (2::nat) < 2 ^ 64 \<and> pure_on 2 3 (\<lambda>d j c. Inr (j, c)) (\<lambda>d j. j) ()
   \<and> (5::int) \<le> INT_MAX
   \<and> get_fact_table 3 5 2 [] (\<lambda>d j c. Inr (j, c)) () =
       Inr ([FactTableObject [0, 0], FactTableObject [0, 1], FactTableObject [0, 2],
             FactTableObject [1, 0], FactTableObject [1, 1]], [], ())"
proof -
  have pure: "pure_on 2 3 (\<lambda>d j c. Inr (j, c)) (\<lambda>d j. j) ()" by (simp add: pure_on_def)
  have cap: "(5::int) \<le> INT_MAX" by (simp add: INT_MAX_def)
  have "get_fact_table 3 5 2 [] (\<lambda>d j c. Inr (j, c)) () =
    Inr (map (\<lambda>t. FactTableObject ([] @ encode_from (\<lambda>d j. j) 0 t)) (take (nat 5) (lex_tuples 2 3)),
         [], ())"
    by (rule get_fact_table_lex_prefix [OF _ _ pure cap]) simp_all
  also have "\<dots> = Inr ([FactTableObject [0, 0], FactTableObject [0, 1], FactTableObject [0, 2],
             FactTableObject [1, 0], FactTableObject [1, 1]], [], ())"
    by (simp add: numeral_2_eq_2 upt_rec)
  finally show ?thesis using pure cap by simp
qed

text \<open>
  C3. Cap respected. Under the same conditions the fact table has exactly
  \<open>min L (k^n)\<close> tuples, for every cap, including one beyond the product.
\<close>

theorem get_fact_table_cap:
  assumes "0 < n" and "n < 2 ^ 64" and "pure_on n k add f c" and "L \<le> INT_MAX"
  shows "\<exists>tbl. get_fact_table k L n tuple0 add c = Inr (tbl, tuple0, c)
               \<and> length tbl = min (nat L) (k ^ n)"
proof -
  have "Suc (size_t_minus_one n) = n" using assms(1,2) by (rule Suc_size_t_minus_one)
  then show ?thesis using get_fact_table_depth [of n k add f c L tuple0] assms(3,4) by simp
qed

theorem get_fact_table_cap_witness:
  "\<exists>tbl. get_fact_table 3 100 2 [] (\<lambda>d j c. Inr (j, c)) () = Inr (tbl, [], ())
          \<and> length tbl = 9"
proof -
  have pure: "pure_on 2 3 (\<lambda>d j c. Inr (j, c)) (\<lambda>d j. j) ()" by (simp add: pure_on_def)
  have cap: "(100::int) \<le> INT_MAX" by (simp add: INT_MAX_def)
  have "\<exists>tbl. get_fact_table 3 100 2 [] (\<lambda>d j c. Inr (j, c)) () = Inr (tbl, [], ())
          \<and> length tbl = min (nat 100) (3 ^ 2)"
    by (rule get_fact_table_cap [OF _ _ pure cap]) simp_all
  then show ?thesis by simp
qed

text \<open>
  C9. Lexicographic order. With a callback that stores the row index itself, the rows of
  the fact table are strictly increasing in lexicographic order, have one column per
  dimension, and hold valid row indices only.
\<close>

theorem get_fact_table_sorted:
  assumes "0 < n" and "n < 2 ^ 64" and "pure_on n k add (\<lambda>d j. j) c" and "L \<le> INT_MAX"
  shows "\<exists>tbl. get_fact_table k L n [] add c = Inr (tbl, [], c)
           \<and> sorted_wrt lex_less (map relations tbl)
           \<and> (\<forall>t \<in> set tbl. length (relations t) = n \<and> set (relations t) \<subseteq> {..<k})"
proof -
  have enc: "encode_from (\<lambda>d j. j) d t = t" for d t
    by (induction t arbitrary: d) simp_all
  have "sorted_wrt lex_less (take (nat L) (lex_tuples n k))"
    by (rule sorted_wrt_take [OF lex_tuples_sorted])
  moreover have "\<forall>t \<in> set (take (nat L) (lex_tuples n k)). length t = n \<and> set t \<subseteq> {..<k}"
    using set_take_subset [of "nat L" "lex_tuples n k"] by (auto simp: set_lex_tuples)
  moreover have "Suc (size_t_minus_one n) = n" using assms(1,2) by (rule Suc_size_t_minus_one)
  ultimately show ?thesis
    using get_fact_table_depth [of n k add "\<lambda>d j. j" c L "[]"] assms(3,4)
    by (simp add: enc map_map o_def)
qed

theorem get_fact_table_sorted_witness:
  "\<exists>tbl. get_fact_table 3 5 2 [] (\<lambda>d j c. Inr (j, c)) () = Inr (tbl, [], ())
     \<and> sorted_wrt lex_less (map relations tbl)
     \<and> (\<forall>t \<in> set tbl. length (relations t) = 2 \<and> set (relations t) \<subseteq> {..<3})"
proof -
  have pure: "pure_on 2 3 (\<lambda>d j c. Inr (j, c)) (\<lambda>d j. j) ()" by (simp add: pure_on_def)
  have cap: "(5::int) \<le> INT_MAX" by (simp add: INT_MAX_def)
  show ?thesis
    by (rule get_fact_table_sorted [OF _ _ pure cap]) simp_all
qed

text \<open>
  C8. Counter bounds. The \<^verbatim>\<open>int\<close> counter \<^verbatim>\<open>tuples_in_fact_table\<close> ends at
  \<open>min L (k^n)\<close>, equal to the number of emitted tuples: it never passes the cap, so
  with a cap of at most \<^verbatim>\<open>INT_MAX\<close> its increment never overflows.
\<close>

theorem rec_pointer_counter_bound:
  assumes "0 < n" and "n < 2 ^ 64" and "pure_on n k add f c" and "0 \<le> L" and "L \<le> INT_MAX"
  shows "\<exists>s. rec_pointer k L n add 0 0
              \<lparr>current_tuple = tuple0, fact_table = [], tuples_in_fact_table = 0, captured = c\<rparr> = Inr s
           \<and> tuples_in_fact_table s = min L (int k ^ n)
           \<and> tuples_in_fact_table s = int (length (fact_table s))
           \<and> tuples_in_fact_table s \<le> INT_MAX"
proof -
  have "Suc (size_t_minus_one n) = n" using assms(1,2) by (rule Suc_size_t_minus_one)
  then show ?thesis
    using rec_pointer_counter [of n k add f c L tuple0] assms(3-5) by auto
qed

theorem rec_pointer_counter_bound_witness:
  "\<exists>s. rec_pointer 100 50000000 4 (\<lambda>d j c. Inr (j, c)) 0 0
         \<lparr>current_tuple = [], fact_table = [], tuples_in_fact_table = 0, captured = ()\<rparr> = Inr s
       \<and> tuples_in_fact_table s = 50000000
       \<and> tuples_in_fact_table s = int (length (fact_table s))
       \<and> tuples_in_fact_table s \<le> INT_MAX"
proof -
  have pure: "pure_on 4 100 (\<lambda>d j c. Inr (j, c)) (\<lambda>d j. j) ()" by (simp add: pure_on_def)
  have cap: "(50000000::int) \<le> INT_MAX" by (simp add: INT_MAX_def)
  have "\<exists>s. rec_pointer 100 50000000 4 (\<lambda>d j c. Inr (j, c)) 0 0
         \<lparr>current_tuple = [], fact_table = [], tuples_in_fact_table = 0, captured = ()\<rparr> = Inr s
       \<and> tuples_in_fact_table s = min 50000000 (int 100 ^ 4)
       \<and> tuples_in_fact_table s = int (length (fact_table s))
       \<and> tuples_in_fact_table s \<le> INT_MAX"
    by (rule rec_pointer_counter_bound [OF _ _ pure _ cap]) simp_all
  then show ?thesis by simp
qed

end
