(* ===== verification/DecimalString.thy ===== *)
theory DecimalString
  imports Prelude
begin

text \<open>
  \<^verbatim>\<open>std::to_string\<close> on an unsigned value, as \<^verbatim>\<open>evaluate_for_n_dimensions\<close> uses
  it for the \<^verbatim>\<open>info_\<close> payload of a dimension row: the shortest decimal numeral, most
  significant digit first. The C++ standard library is not part of the repository, so
  this is modelled from its specification.
\<close>

definition digit_char :: "nat \<Rightarrow> char" where
  "digit_char d = char_of (48 + d)"

fun to_string :: "nat \<Rightarrow> string" where
  "to_string n = (if n < 10 then [digit_char n] else to_string (n div 10) @ [digit_char (n mod 10)])"

declare to_string.simps [simp del]

end
