(* ===== verification/DimensionStore.thy ===== *)
theory DimensionStore
  imports DecimalString
begin

text \<open>
  The dimension store of \<^verbatim>\<open>evaluate_for_n_dimensions\<close> (step 1 of
  \<^verbatim>\<open>benchmark.cpp\<close>): \<open>n\<close> dimension tables (\<^verbatim>\<open>std::vector<DimensionObject>\<close>) and
  \<open>n\<close> indexes (\<^verbatim>\<open>std::unordered_map<size_t, shared_ptr<DimensionObject>>\<close>). A
  \<^verbatim>\<open>shared_ptr\<close> is an address into an explicit heap of \<^verbatim>\<open>DimensionObject\<close>s that
  only grows (reference counting keeps every object reachable from an index alive for
  the whole experiment); \<^verbatim>\<open>make_shared\<close> allocates at the next fresh address, so the
  handle is a separate allocation holding a copy of the row, as the code has it. The
  theory holds the build loops, the store they produce, and its invariant.
\<close>

section \<open>Data\<close>

text \<open>\<^verbatim>\<open>class DimensionObject { size_t id_; string info_; }\<close>\<close>

record DimensionObject =
  obj_id :: nat
  obj_info :: string

text \<open>\<^verbatim>\<open>shared_ptr<DimensionObject>\<close>: empty, or the address of an allocation.\<close>

datatype shared_ptr = NullPtr | SharedPtr nat

type_synonym DimensionTable = "DimensionObject list"

type_synonym DimensionTableIndex = "nat \<rightharpoonup> shared_ptr"

text \<open>The locals \<^verbatim>\<open>dimensions\<close>, \<^verbatim>\<open>dimension_indexes\<close>, and the heap they point into.\<close>

record star_schema =
  dimensions :: "DimensionTable list"
  dimension_indexes :: "DimensionTableIndex list"
  heap :: "DimensionObject list"

section \<open>Operations\<close>

text \<open>\<^verbatim>\<open>make_shared<DimensionObject>(obj)\<close>: a fresh allocation holding a copy.\<close>

definition make_shared :: "DimensionObject \<Rightarrow> DimensionObject list \<Rightarrow> shared_ptr \<times> DimensionObject list" where
  "make_shared obj h = (SharedPtr (length h), h @ [obj])"

text \<open>
  \<^verbatim>\<open>unordered_map::operator[](key)\<close>: the mapped value, after inserting a
  value-initialised (empty) \<^verbatim>\<open>shared_ptr\<close> when the key is missing.
\<close>

definition index_subscript :: "DimensionTableIndex \<Rightarrow> nat \<Rightarrow> shared_ptr \<times> DimensionTableIndex" where
  "index_subscript m key = (case m key of Some p \<Rightarrow> (p, m) | None \<Rightarrow> (NullPtr, m(key \<mapsto> NullPtr)))"

text \<open>\<^verbatim>\<open>*p\<close>: undefined for an empty pointer.\<close>

definition deref :: "DimensionObject list \<Rightarrow> shared_ptr \<Rightarrow> DimensionObject result" where
  "deref h p = (case p of NullPtr \<Rightarrow> Inl NullDeref | SharedPtr a \<Rightarrow> vec_at h a)"

text \<open>
  The body of the inner build loop, for row \<open>j\<close> of dimension \<open>i\<close>:
  \<^verbatim>\<open>dimensions[i].emplace_back(j, to_string(j));\<close>
  \<^verbatim>\<open>dimension_indexes[i][j] = make_shared<DimensionObject>(dimensions[i][j]);\<close>
\<close>

definition add_dimension_row :: "nat \<Rightarrow> nat \<Rightarrow> star_schema \<Rightarrow> star_schema result" where
  "add_dimension_row i j s =
     bind_res (vec_at (dimensions s) i) (\<lambda>tbl.
       let dims = (dimensions s)[i := tbl @ [\<lparr>obj_id = j, obj_info = to_string j\<rparr>]] in
       bind_res (vec_at dims i) (\<lambda>tbl'. bind_res (vec_at tbl' j) (\<lambda>obj.
         let (p, h) = make_shared obj (heap s) in
         bind_res (vec_at (dimension_indexes s) i) (\<lambda>idx.
           Inr (s\<lparr>dimensions := dims,
                  dimension_indexes := (dimension_indexes s)[i := idx(j \<mapsto> p)],
                  heap := h\<rparr>)))))"

text \<open>
  One iteration of the outer build loop: \<^verbatim>\<open>dimensions.emplace_back();\<close>
  \<^verbatim>\<open>dimension_indexes.emplace_back();\<close> and the inner loop over
  \<^verbatim>\<open>j < number_of_tuples_in_dimension_tables\<close> (here \<open>k\<close>).
\<close>

definition add_dimension :: "nat \<Rightarrow> nat \<Rightarrow> star_schema \<Rightarrow> star_schema result" where
  "add_dimension k i s =
     res_fold (\<lambda>s j. add_dimension_row i j s) [0..<k]
       (s\<lparr>dimensions := dimensions s @ [[]], dimension_indexes := dimension_indexes s @ [Map.empty]\<rparr>)"

definition empty_schema :: star_schema where
  "empty_schema = \<lparr>dimensions = [], dimension_indexes = [], heap = []\<rparr>"

text \<open>The outer build loop, \<^verbatim>\<open>for (size_t i = 0; i < n; i++)\<close>.\<close>

definition build_star_schema :: "nat \<Rightarrow> nat \<Rightarrow> star_schema result" where
  "build_star_schema k n = res_fold (\<lambda>s i. add_dimension k i s) [0..<n] empty_schema"

section \<open>The store the build produces\<close>

definition dim_row :: "nat \<Rightarrow> DimensionObject" where
  "dim_row j = \<lparr>obj_id = j, obj_info = to_string j\<rparr>"

text \<open>The index of dimension \<open>i\<close> after its first \<open>m\<close> rows: row \<open>j\<close> at address \<open>i * k + j\<close>.\<close>

definition dim_index :: "nat \<Rightarrow> nat \<Rightarrow> nat \<Rightarrow> DimensionTableIndex" where
  "dim_index k i m = (\<lambda>j. if j < m then Some (SharedPtr (i * k + j)) else None)"

definition partial_schema :: "nat \<Rightarrow> nat \<Rightarrow> nat \<Rightarrow> star_schema" where
  "partial_schema k i m =
     \<lparr>dimensions = replicate i (map dim_row [0..<k]) @ [map dim_row [0..<m]],
      dimension_indexes = map (\<lambda>i'. dim_index k i' k) [0..<i] @ [dim_index k i m],
      heap = concat (replicate i (map dim_row [0..<k])) @ map dim_row [0..<m]\<rparr>"

definition schema_spec :: "nat \<Rightarrow> nat \<Rightarrow> star_schema" where
  "schema_spec k n =
     \<lparr>dimensions = replicate n (map dim_row [0..<k]),
      dimension_indexes = map (\<lambda>i. dim_index k i k) [0..<n],
      heap = concat (replicate n (map dim_row [0..<k]))\<rparr>"

text \<open>
  The invariant of a store for \<open>n\<close> dimensions of \<open>k\<close> rows. Per dimension: row \<open>j\<close>
  has id \<open>j\<close> and info \<open>to_string j\<close>, the index maps exactly the ids \<open>0..k-1\<close>,
  each to a non-empty handle whose allocation holds a copy of the row. Across dimensions:
  handles of different rows are different allocations.
\<close>

definition dimension_ok :: "nat \<Rightarrow> star_schema \<Rightarrow> nat \<Rightarrow> bool" where
  "dimension_ok k s i \<longleftrightarrow>
     length (dimensions s ! i) = k \<and>
     (\<forall>j < k. dimensions s ! i ! j = dim_row j) \<and>
     dom (dimension_indexes s ! i) = {..<k} \<and>
     (\<forall>j < k. \<exists>a. (dimension_indexes s ! i) j = Some (SharedPtr a) \<and>
                  a < length (heap s) \<and> heap s ! a = dimensions s ! i ! j)"

definition separate_allocations :: "nat \<Rightarrow> nat \<Rightarrow> star_schema \<Rightarrow> bool" where
  "separate_allocations k n s \<longleftrightarrow>
     (\<forall>i < n. \<forall>i' < n. \<forall>j < k. \<forall>j' < k.
        (dimension_indexes s ! i) j = (dimension_indexes s ! i') j' \<longrightarrow> i = i' \<and> j = j')"

definition wf_schema :: "nat \<Rightarrow> nat \<Rightarrow> star_schema \<Rightarrow> bool" where
  "wf_schema k n s \<longleftrightarrow>
     length (dimensions s) = n \<and> length (dimension_indexes s) = n \<and>
     (\<forall>i < n. dimension_ok k s i) \<and> separate_allocations k n s"

section \<open>Lemmas\<close>

subsection \<open>Heap and index primitives\<close>

lemma make_shared_fresh:
  "make_shared obj h = (p, h') \<Longrightarrow> p = SharedPtr (length h) \<and> h' = h @ [obj]"
  by (simp add: make_shared_def)

lemma deref_SharedPtr [simp, result_simps]: "a < length h \<Longrightarrow> deref h (SharedPtr a) = Inr (h ! a)"
  by (simp add: deref_def)

lemma deref_NullPtr [simp, result_simps]: "deref h NullPtr = Inl NullDeref"
  by (simp add: deref_def)

lemma deref_append: "deref h p = Inr obj \<Longrightarrow> deref (h @ h') p = Inr obj"
  by (auto simp: deref_def vec_at_def nth_append split: shared_ptr.splits if_splits)

lemma index_subscript_hit [simp, result_simps]: "m key = Some p \<Longrightarrow> index_subscript m key = (p, m)"
  by (simp add: index_subscript_def)

lemma index_subscript_miss [simp, result_simps]:
  "m key = None \<Longrightarrow> index_subscript m key = (NullPtr, m(key \<mapsto> NullPtr))"
  by (simp add: index_subscript_def)

subsection \<open>The build loops\<close>

lemma length_store_heap: "length (concat (replicate i (map dim_row [0..<k]))) = i * k"
  by (induction i) simp_all

lemma dim_index_Suc: "(dim_index k i m)(m \<mapsto> SharedPtr (i * k + m)) = dim_index k i (Suc m)"
  by (auto simp: dim_index_def)

lemma add_dimension_row_step:
  "add_dimension_row i m (partial_schema k i m) = Inr (partial_schema k i (Suc m))"
  by (simp add: add_dimension_row_def partial_schema_def make_shared_def length_store_heap
                dim_row_def dim_index_Suc)

lemma add_dimension_rows:
  "res_fold (\<lambda>s j. add_dimension_row i j s) [0..<m] (partial_schema k i 0) = Inr (partial_schema k i m)"
  by (induction m) (simp_all add: res_fold_snoc add_dimension_row_step)

lemma add_dimension_spec: "add_dimension k i (schema_spec k i) = Inr (schema_spec k (Suc i))"
proof -
  have "(schema_spec k i)\<lparr>dimensions := dimensions (schema_spec k i) @ [[]],
          dimension_indexes := dimension_indexes (schema_spec k i) @ [Map.empty]\<rparr> = partial_schema k i 0"
    by (simp add: schema_spec_def partial_schema_def dim_index_def)
  moreover have "partial_schema k i k = schema_spec k (Suc i)"
    by (simp add: schema_spec_def partial_schema_def replicate_append_same concat_replicate_snoc)
  ultimately show ?thesis
    by (simp add: add_dimension_def add_dimension_rows)
qed

lemma build_star_schema_spec: "build_star_schema k n = Inr (schema_spec k n)"
proof (induction n)
  case 0
  then show ?case by (simp add: build_star_schema_def empty_schema_def schema_spec_def)
next
  case (Suc n)
  then show ?case
    by (simp add: build_star_schema_def res_fold_snoc add_dimension_spec)
qed

subsection \<open>The invariant of the built store\<close>

lemma heap_schema_spec:
  assumes "i < n" and "j < k"
  shows "i * k + j < length (heap (schema_spec k n))"
    and "heap (schema_spec k n) ! (i * k + j) = dim_row j"
proof -
  let ?R = "map dim_row [0..<k]"
  have "heap (schema_spec k n) = concat (replicate i ?R) @ ?R @ concat (replicate (n - Suc i) ?R)"
    using replicate_split [OF assms(1), of ?R] by (simp add: schema_spec_def)
  then show "i * k + j < length (heap (schema_spec k n))"
    and "heap (schema_spec k n) ! (i * k + j) = dim_row j"
    using assms(2) by (simp_all add: length_store_heap nth_append)
qed

lemma dim_index_inj:
  fixes i i' j j' k :: nat
  assumes "j < k" and "j' < k" and "i * k + j = i' * k + j'"
  shows "i = i' \<and> j = j'"
proof -
  have "(i * k + j) div k = i" and "(i' * k + j') div k = i'"
    using assms(1,2) by simp_all
  with assms(3) have "i = i'" by simp
  with assms(3) show ?thesis by simp
qed

lemma dimension_ok_spec:
  assumes "i < n"
  shows "dimension_ok k (schema_spec k n) i"
proof -
  let ?s = "schema_spec k n"
  have "length (dimensions ?s ! i) = k" and "\<forall>j < k. dimensions ?s ! i ! j = dim_row j"
    and "dom (dimension_indexes ?s ! i) = {..<k}"
    using assms by (auto simp: schema_spec_def dim_index_def split: if_splits)
  moreover have "\<forall>j < k. \<exists>a. (dimension_indexes ?s ! i) j = Some (SharedPtr a) \<and>
                   a < length (heap ?s) \<and> heap ?s ! a = dimensions ?s ! i ! j"
  proof (intro allI impI)
    fix j assume "j < k"
    then show "\<exists>a. (dimension_indexes ?s ! i) j = Some (SharedPtr a) \<and>
                   a < length (heap ?s) \<and> heap ?s ! a = dimensions ?s ! i ! j"
      using assms heap_schema_spec [of i n j k] by (simp add: schema_spec_def dim_index_def)
  qed
  ultimately show ?thesis unfolding dimension_ok_def by (intro conjI)
qed

lemma separate_allocations_spec: "separate_allocations k n (schema_spec k n)"
  unfolding separate_allocations_def
proof (intro allI impI)
  fix i i' j j' assume "i < n" "i' < n" "j < k" "j' < k"
    "(dimension_indexes (schema_spec k n) ! i) j = (dimension_indexes (schema_spec k n) ! i') j'"
  then have "i * k + j = i' * k + j'" by (simp add: schema_spec_def dim_index_def)
  with dim_index_inj \<open>j < k\<close> \<open>j' < k\<close> show "i = i' \<and> j = j'" by blast
qed

lemma wf_schema_spec: "wf_schema k n (schema_spec k n)"
  unfolding wf_schema_def
  by (simp add: dimension_ok_spec separate_allocations_spec) (simp add: schema_spec_def)

subsection \<open>Properties of the store\<close>

text \<open>
  C5. The build loops of \<^verbatim>\<open>evaluate_for_n_dimensions\<close> never fail and produce a
  well-formed store: \<open>n\<close> tables of \<open>k\<close> rows, row \<open>j\<close> with id \<open>j\<close> and info
  \<open>to_string j\<close>; each index maps exactly the ids \<open>0..k-1\<close> (index completeness),
  each to a non-empty handle whose separate allocation holds a copy of the row; no two
  rows share an allocation.
\<close>

theorem build_star_schema_wf: "\<exists>s. build_star_schema k n = Inr s \<and> wf_schema k n s"
  using build_star_schema_spec wf_schema_spec by blast

theorem build_star_schema_wf_witness:
  "\<exists>s. build_star_schema 100 4 = Inr s \<and> wf_schema 100 4 s"
  by (rule build_star_schema_wf)

end
