(* ===== verification/Encoders.thy ===== *)
theory Encoders
  imports Enumerator DimensionStore
begin

text \<open>
  The two tuple-encoding strategies of \<^verbatim>\<open>evaluate_for_n_dimensions\<close> (steps 2a and
  2b): the lambdas \<^verbatim>\<open>add_foreign_key_to_tuple\<close> and \<^verbatim>\<open>add_pointer_to_tuple\<close>,
  which capture the store by reference, and the two calls of the enumerator that build
  the foreign-key fact table \<^verbatim>\<open>fact_table_RM\<close> and the pointer fact table
  \<^verbatim>\<open>fact_table_RTM\<close>. The store is the callbacks' captured state: the pointer callback
  reaches the index through \<^verbatim>\<open>unordered_map::operator[]\<close>, which could insert.
\<close>

section \<open>The callbacks\<close>

text \<open>\<^verbatim>\<open>current_foreign_key_tuple.emplace_back(dimensions[d][j].id_)\<close>\<close>

definition add_foreign_key_to_tuple :: "nat \<Rightarrow> nat \<Rightarrow> star_schema \<Rightarrow> (nat \<times> star_schema) result" where
  "add_foreign_key_to_tuple d j s =
     bind_res (vec_at (dimensions s) d) (\<lambda>tbl. bind_res (vec_at tbl j) (\<lambda>obj. Inr (obj_id obj, s)))"

text \<open>\<^verbatim>\<open>current_pointer_tuple.emplace_back(dimension_indexes[d][j])\<close>\<close>

definition add_pointer_to_tuple :: "nat \<Rightarrow> nat \<Rightarrow> star_schema \<Rightarrow> (shared_ptr \<times> star_schema) result" where
  "add_pointer_to_tuple d j s =
     bind_res (vec_at (dimension_indexes s) d) (\<lambda>idx.
       let (p, idx') = index_subscript idx j
       in Inr (p, s\<lparr>dimension_indexes := (dimension_indexes s)[d := idx']\<rparr>))"

section \<open>The two fact tables\<close>

text \<open>\<^verbatim>\<open>fact_table_RM = get_fact_table<ForeignKeyTableObject>(n, current_foreign_key_tuple, ...)\<close>\<close>

definition build_fact_table_RM ::
  "nat \<Rightarrow> int \<Rightarrow> nat \<Rightarrow> star_schema \<Rightarrow> (nat FactTableObject list \<times> nat list \<times> star_schema) result" where
  "build_fact_table_RM k L n s = get_fact_table k L n [] add_foreign_key_to_tuple s"

text \<open>\<^verbatim>\<open>fact_table_RTM = get_fact_table<PointerFactTableObject>(n, current_pointer_tuple, ...)\<close>\<close>

definition build_fact_table_RTM ::
  "nat \<Rightarrow> int \<Rightarrow> nat \<Rightarrow> star_schema \<Rightarrow> (shared_ptr FactTableObject list \<times> shared_ptr list \<times> star_schema) result" where
  "build_fact_table_RTM k L n s = get_fact_table k L n [] add_pointer_to_tuple s"

text \<open>The handle the index of dimension \<open>d\<close> holds for id \<open>j\<close>.\<close>

definition handle_of :: "star_schema \<Rightarrow> nat \<Rightarrow> nat \<Rightarrow> shared_ptr" where
  "handle_of s d j = (case (dimension_indexes s ! d) j of Some p \<Rightarrow> p | None \<Rightarrow> NullPtr)"

section \<open>Lemmas\<close>

lemma wf_schema_dimension_ok: "wf_schema k n s \<Longrightarrow> d < n \<Longrightarrow> dimension_ok k s d"
  by (simp add: wf_schema_def)

lemma wf_schema_row:
  "wf_schema k n s \<Longrightarrow> d < n \<Longrightarrow> j < k \<Longrightarrow> dimensions s ! d ! j = dim_row j"
  by (simp add: wf_schema_def dimension_ok_def)

lemma wf_schema_handle:
  assumes "wf_schema k n s" and "d < n" and "j < k"
  obtains a where "(dimension_indexes s ! d) j = Some (SharedPtr a)" and "a < length (heap s)"
    and "heap s ! a = dim_row j"
proof -
  from assms(1,2) have ok: "dimension_ok k s d" by (rule wf_schema_dimension_ok)
  then obtain a where "(dimension_indexes s ! d) j = Some (SharedPtr a)" and "a < length (heap s)"
    and "heap s ! a = dimensions s ! d ! j"
    using assms(3) unfolding dimension_ok_def by blast
  moreover have "dimensions s ! d ! j = dim_row j"
    using ok assms(3) by (simp add: dimension_ok_def)
  ultimately show ?thesis using that by simp
qed

lemma add_foreign_key_pure:
  "wf_schema k n s \<Longrightarrow> pure_on n k add_foreign_key_to_tuple (\<lambda>d j. j) s"
  by (auto simp: pure_on_def add_foreign_key_to_tuple_def wf_schema_def dimension_ok_def dim_row_def)

lemma add_pointer_pure:
  assumes "wf_schema k n s"
  shows "pure_on n k add_pointer_to_tuple (handle_of s) s"
  unfolding pure_on_def
proof (intro allI impI)
  fix d j assume d: "d < n" and j: "j < k"
  obtain a where a: "(dimension_indexes s ! d) j = Some (SharedPtr a)"
    using wf_schema_handle [OF assms d j] by blast
  have "d < length (dimension_indexes s)" using assms d by (simp add: wf_schema_def)
  then show "add_pointer_to_tuple d j s = Inr (handle_of s d j, s)"
    using a by (simp add: add_pointer_to_tuple_def handle_of_def)
qed

lemma encode_from_index: "encode_from (\<lambda>d j. j) d t = t"
  by (induction t arbitrary: d) simp_all

lemma nth_encode_from: "c < length t \<Longrightarrow> encode_from f d t ! c = f (d + c) (t ! c)"
  by (induction t arbitrary: d c) (auto simp: nth_Cons split: nat.split)

lemma handle_of_spec: "d < n \<Longrightarrow> j < k \<Longrightarrow> handle_of (schema_spec k n) d j = SharedPtr (d * k + j)"
  by (simp add: handle_of_def schema_spec_def dim_index_def)

lemma build_fact_table_RM_depth:
  assumes "wf_schema k n s" and "0 < n" and "n < 2 ^ 64" and "L \<le> INT_MAX"
  shows "build_fact_table_RM k L n s =
           Inr (map FactTableObject (take (nat L) (lex_tuples n k)), [], s)"
proof -
  have "Suc (size_t_minus_one n) = n" using assms(2,3) by (rule Suc_size_t_minus_one)
  then show ?thesis
    using get_fact_table_depth [OF _ assms(4), of n k add_foreign_key_to_tuple "\<lambda>d j. j" s "[]"]
      add_foreign_key_pure [OF assms(1)]
    by (simp add: build_fact_table_RM_def encode_from_index)
qed

lemma build_fact_table_RTM_depth:
  assumes "wf_schema k n s" and "0 < n" and "n < 2 ^ 64" and "L \<le> INT_MAX"
  shows "build_fact_table_RTM k L n s =
           Inr (map (\<lambda>t. FactTableObject (encode_from (handle_of s) 0 t)) (take (nat L) (lex_tuples n k)),
                [], s)"
proof -
  have "Suc (size_t_minus_one n) = n" using assms(2,3) by (rule Suc_size_t_minus_one)
  then show ?thesis
    using get_fact_table_depth [OF _ assms(4), of n k add_pointer_to_tuple "handle_of s" s "[]"]
      add_pointer_pure [OF assms(1)]
    by (simp add: build_fact_table_RTM_def)
qed

lemma zero_dimensions_first_call:
  assumes "0 < k" and "0 < L" and "add 0 0 c = Inl e"
  shows "get_fact_table k L 0 [] add c = Inl e"
  using assms by (simp add: get_fact_table_def rec_pointer.simps [of k L 0 add 0 0])

subsection \<open>Properties of the encoders\<close>

text \<open>
  C10. Foreign-key table. On a well-formed store of \<open>n\<close> dimensions of \<open>k\<close> rows, the
  foreign-key build returns as its rows the first \<open>L\<close> index tuples of
  \<open>{0..k-1}^n\<close> in lexicographic order (the id of row \<open>j\<close> is \<open>j\<close>), leaves
  \<^verbatim>\<open>current_foreign_key_tuple\<close> empty and the store unchanged.
\<close>

theorem fact_table_RM_contents:
  assumes "wf_schema k n s" and "0 < n" and "n < 2 ^ 64" and "L \<le> INT_MAX"
  shows "build_fact_table_RM k L n s =
           Inr (map FactTableObject (take (nat L) (lex_tuples n k)), [], s)"
  by (rule build_fact_table_RM_depth [OF assms])

theorem fact_table_RM_contents_witness:
  "build_fact_table_RM 3 5 2 (schema_spec 3 2) =
     Inr ([FactTableObject [0, 0], FactTableObject [0, 1], FactTableObject [0, 2],
           FactTableObject [1, 0], FactTableObject [1, 1]], [], schema_spec 3 2)"
proof -
  have "build_fact_table_RM 3 5 2 (schema_spec 3 2) =
          Inr (map FactTableObject (take (nat 5) (lex_tuples 2 3)), [], schema_spec 3 2)"
    by (rule fact_table_RM_contents [OF wf_schema_spec]) (simp_all add: INT_MAX_def)
  also have "\<dots> = Inr ([FactTableObject [0, 0], FactTableObject [0, 1], FactTableObject [0, 2],
           FactTableObject [1, 0], FactTableObject [1, 1]], [], schema_spec 3 2)"
    by (simp add: numeral_2_eq_2 upt_rec)
  finally show ?thesis .
qed

text \<open>
  C11. Pointer table. On a well-formed store the pointer build returns, for the same
  index tuples in the same order, the handles the indexes hold for them; the
  \<^verbatim>\<open>operator[]\<close> lookups find every key, so the store (indexes included) is unchanged.
\<close>

theorem fact_table_RTM_contents:
  assumes "wf_schema k n s" and "0 < n" and "n < 2 ^ 64" and "L \<le> INT_MAX"
  shows "build_fact_table_RTM k L n s =
           Inr (map (\<lambda>t. FactTableObject (encode_from (handle_of s) 0 t)) (take (nat L) (lex_tuples n k)),
                [], s)"
  by (rule build_fact_table_RTM_depth [OF assms])

theorem fact_table_RTM_contents_witness:
  "build_fact_table_RTM 3 5 2 (schema_spec 3 2) =
     Inr ([FactTableObject [SharedPtr 0, SharedPtr 3], FactTableObject [SharedPtr 0, SharedPtr 4],
           FactTableObject [SharedPtr 0, SharedPtr 5], FactTableObject [SharedPtr 1, SharedPtr 3],
           FactTableObject [SharedPtr 1, SharedPtr 4]], [], schema_spec 3 2)"
proof -
  have "build_fact_table_RTM 3 5 2 (schema_spec 3 2) =
          Inr (map (\<lambda>t. FactTableObject (encode_from (handle_of (schema_spec 3 2)) 0 t))
                 (take (nat 5) (lex_tuples 2 3)), [], schema_spec 3 2)"
    by (rule fact_table_RTM_contents [OF wf_schema_spec]) (simp_all add: INT_MAX_def)
  also have "\<dots> = Inr ([FactTableObject [SharedPtr 0, SharedPtr 3], FactTableObject [SharedPtr 0, SharedPtr 4],
           FactTableObject [SharedPtr 0, SharedPtr 5], FactTableObject [SharedPtr 1, SharedPtr 3],
           FactTableObject [SharedPtr 1, SharedPtr 4]], [], schema_spec 3 2)"
    by (simp add: numeral_2_eq_2 upt_rec handle_of_spec)
  finally show ?thesis .
qed

text \<open>
  C4. The two fact tables are logically identical. On a well-formed store both builds
  succeed with tables of equal length; row \<open>p\<close> of each has \<open>n\<close> columns, and column
  \<open>c\<close> of the pointer row is the handle the index of dimension \<open>c\<close> holds for the id in
  column \<open>c\<close> of the foreign-key row.
\<close>

theorem fact_tables_correspond:
  assumes "wf_schema k n s" and "0 < n" and "n < 2 ^ 64" and "L \<le> INT_MAX"
  shows "\<exists>rm rtm. build_fact_table_RM k L n s = Inr (rm, [], s)
           \<and> build_fact_table_RTM k L n s = Inr (rtm, [], s)
           \<and> length rm = length rtm
           \<and> (\<forall>p < length rm. length (relations (rm ! p)) = n
                \<and> length (relations (rtm ! p)) = n
                \<and> (\<forall>c < n. relations (rtm ! p) ! c = handle_of s c (relations (rm ! p) ! c)))"
proof -
  let ?ts = "take (nat L) (lex_tuples n k)"
  have len: "length (lex_tuples n k ! p) = n" if "p < k ^ n" for p
    using that nth_mem [of p "lex_tuples n k"] by (simp add: set_lex_tuples)
  have "\<forall>p < length ?ts. length (?ts ! p) = n
          \<and> (\<forall>c < n. encode_from (handle_of s) 0 (?ts ! p) ! c = handle_of s c (?ts ! p ! c))"
    by (auto simp: len nth_encode_from)
  then show ?thesis
    using build_fact_table_RM_depth [OF assms] build_fact_table_RTM_depth [OF assms] by simp
qed

theorem fact_tables_correspond_witness:
  "\<exists>rm rtm. build_fact_table_RM 100 50000000 4 (schema_spec 100 4) = Inr (rm, [], schema_spec 100 4)
     \<and> build_fact_table_RTM 100 50000000 4 (schema_spec 100 4) = Inr (rtm, [], schema_spec 100 4)
     \<and> length rm = length rtm
     \<and> (\<forall>p < length rm. length (relations (rm ! p)) = 4
          \<and> length (relations (rtm ! p)) = 4
          \<and> (\<forall>c < 4. relations (rtm ! p) ! c = handle_of (schema_spec 100 4) c (relations (rm ! p) ! c)))"
  by (rule fact_tables_correspond [OF wf_schema_spec]) (simp_all add: INT_MAX_def)

text \<open>
  C13. Zero dimensions. With \<open>n = 0\<close> the store has no dimension, and the first call of
  either callback, for dimension \<open>0\<close>, subscripts the empty vector
  \<^verbatim>\<open>dimensions\<close> (or \<^verbatim>\<open>dimension_indexes\<close>) out of range: undefined behaviour,
  where the specification promises an empty fact table.
\<close>

theorem fact_tables_zero_dimensions:
  assumes "0 < k" and "0 < L"
  shows "build_fact_table_RM k L 0 (schema_spec k 0) = Inl OutOfRange
       \<and> build_fact_table_RTM k L 0 (schema_spec k 0) = Inl OutOfRange"
proof -
  have "add_foreign_key_to_tuple 0 0 (schema_spec k 0) = Inl OutOfRange"
    and "add_pointer_to_tuple 0 0 (schema_spec k 0) = Inl OutOfRange"
    by (simp_all add: add_foreign_key_to_tuple_def add_pointer_to_tuple_def schema_spec_def)
  then show ?thesis
    unfolding build_fact_table_RM_def build_fact_table_RTM_def
    by (blast intro: zero_dimensions_first_call [OF assms])
qed

theorem fact_tables_zero_dimensions_witness:
  "build_fact_table_RM 100 50000000 0 (schema_spec 100 0) = Inl OutOfRange
   \<and> build_fact_table_RTM 100 50000000 0 (schema_spec 100 0) = Inl OutOfRange"
  by (rule fact_tables_zero_dimensions) simp_all

end
