(* ===== verification/JoinScan.thy ===== *)
theory JoinScan
  imports Encoders
begin

text \<open>
  The join access benchmark (step 3 of \<^verbatim>\<open>evaluate_for_n_dimensions\<close>): a full scan
  of each fact table that resolves every column to its dimension row, through
  \<^verbatim>\<open>*dimension_indexes[j][key]\<close> for foreign keys and \<^verbatim>\<open>*relations_[j]\<close> for
  handles. The code copies each resolved row into a local and drops it; the model keeps
  the copies, in scan order, as the observable trace of the scan, and threads the store
  through the foreign-key scan because \<^verbatim>\<open>operator[]\<close> may insert into an index.
\<close>

section \<open>Resolution of one column\<close>

text \<open>
  \<^verbatim>\<open>*dimension_indexes[j][key]\<close>: subscript the vector of indexes, look the key up
  with \<^verbatim>\<open>operator[]\<close> (inserting an empty handle when it is missing), dereference.
\<close>

definition resolve_foreign :: "star_schema \<Rightarrow> nat \<Rightarrow> nat \<Rightarrow> (DimensionObject \<times> star_schema) result" where
  "resolve_foreign s j key =
     bind_res (vec_at (dimension_indexes s) j) (\<lambda>idx.
       let (p, idx') = index_subscript idx key;
           s' = s\<lparr>dimension_indexes := (dimension_indexes s)[j := idx']\<rparr>
       in bind_res (deref (heap s') p) (\<lambda>obj. Inr (obj, s')))"

section \<open>The two scans\<close>

text \<open>
  The inner loop of step 3a, \<^verbatim>\<open>for (size_t j = 0; j < n; j++)\<close>, on one tuple. Both
  subscripts of \<^verbatim>\<open>dimension_indexes[j][rel_object.relations_[j]]\<close> fail with the same
  out-of-range error, so the order in which the model takes them is immaterial.
\<close>

definition scan_tuple_foreign ::
  "nat \<Rightarrow> nat FactTableObject \<Rightarrow> star_schema \<times> DimensionObject list \<Rightarrow>
   (star_schema \<times> DimensionObject list) result" where
  "scan_tuple_foreign n rel st =
     res_fold (\<lambda>(s, acc) j.
         bind_res (vec_at (relations rel) j) (\<lambda>key.
         bind_res (resolve_foreign s j key) (\<lambda>(obj, s'). Inr (s', acc @ [obj]))))
       [0..<n] st"

text \<open>Step 3a, \<^verbatim>\<open>for (auto &rel_object: fact_table_RM)\<close>.\<close>

definition scan_foreign ::
  "nat \<Rightarrow> nat FactTableObject list \<Rightarrow> star_schema \<Rightarrow> (star_schema \<times> DimensionObject list) result" where
  "scan_foreign n ft s = res_fold (\<lambda>st rel. scan_tuple_foreign n rel st) ft (s, [])"

text \<open>The inner loop of step 3b: \<^verbatim>\<open>*rel_object.relations_[j]\<close> for \<open>j < n\<close>.\<close>

definition scan_tuple_pointer ::
  "nat \<Rightarrow> DimensionObject list \<Rightarrow> shared_ptr FactTableObject \<Rightarrow> DimensionObject list \<Rightarrow>
   DimensionObject list result" where
  "scan_tuple_pointer n h rel acc =
     res_fold (\<lambda>acc j.
         bind_res (vec_at (relations rel) j) (\<lambda>p.
         bind_res (deref h p) (\<lambda>obj. Inr (acc @ [obj]))))
       [0..<n] acc"

text \<open>Step 3b, \<^verbatim>\<open>for (auto &rel_object: fact_table_RTM)\<close>; it reads the heap only.\<close>

definition scan_pointer ::
  "nat \<Rightarrow> DimensionObject list \<Rightarrow> shared_ptr FactTableObject list \<Rightarrow> DimensionObject list result" where
  "scan_pointer n h ft = res_fold (\<lambda>acc rel. scan_tuple_pointer n h rel acc) ft []"

text \<open>A fact-table row that names valid rows of all \<open>n\<close> dimensions.\<close>

definition valid_ids :: "nat \<Rightarrow> nat \<Rightarrow> nat list \<Rightarrow> bool" where
  "valid_ids k n t \<longleftrightarrow> length t = n \<and> (\<forall>x \<in> set t. x < k)"

section \<open>Lemmas\<close>

lemma resolve_foreign_hit:
  assumes "wf_schema k n s" and "j < n" and "key < k"
  shows "resolve_foreign s j key = Inr (dim_row key, s)"
proof -
  obtain a where a: "(dimension_indexes s ! j) key = Some (SharedPtr a)" and "a < length (heap s)"
    and "heap s ! a = dim_row key"
    using wf_schema_handle [OF assms] by blast
  moreover have "j < length (dimension_indexes s)" using assms(1,2) by (simp add: wf_schema_def)
  ultimately show ?thesis by (simp add: resolve_foreign_def)
qed

lemma scan_tuple_foreign_prefix:
  assumes "wf_schema k n s" and "valid_ids k n t" and "m \<le> n"
  shows "scan_tuple_foreign m (FactTableObject t) (s, acc) = Inr (s, acc @ map dim_row (take m t))"
  using assms(3)
proof (induction m)
  case 0
  then show ?case by (simp add: scan_tuple_foreign_def)
next
  case (Suc m)
  have m: "m < n" and tm: "m < length t" and key: "t ! m < k"
    using Suc.prems assms(2) by (auto simp: valid_ids_def)
  with Suc key tm show ?case
    by (simp add: scan_tuple_foreign_def res_fold_snoc resolve_foreign_hit [OF assms(1)]
                  take_Suc_conv_app_nth)
qed

lemma scan_foreign_trace:
  assumes "wf_schema k n s" and "\<forall>r \<in> set ft. valid_ids k n (relations r)"
  shows "res_fold (\<lambda>st rel. scan_tuple_foreign n rel st) ft (s, acc) =
           Inr (s, acc @ concat (map (\<lambda>r. map dim_row (relations r)) ft))"
  using assms(2)
proof (induction ft arbitrary: acc)
  case Nil
  then show ?case by simp
next
  case (Cons r ft)
  obtain t where r: "r = FactTableObject t" by (cases r)
  with Cons.prems have "valid_ids k n t" by simp
  then have "scan_tuple_foreign n r (s, acc) = Inr (s, acc @ map dim_row t)"
    using scan_tuple_foreign_prefix [OF assms(1), of t n acc] r by (simp add: valid_ids_def)
  with Cons r show ?case by simp
qed

lemma scan_tuple_pointer_prefix:
  assumes "wf_schema k n s" and "valid_ids k n t" and "m \<le> n"
  shows "scan_tuple_pointer m (heap s) (FactTableObject (encode_from (handle_of s) 0 t)) acc =
           Inr (acc @ map dim_row (take m t))"
  using assms(3)
proof (induction m)
  case 0
  then show ?case by (simp add: scan_tuple_pointer_def)
next
  case (Suc m)
  have m: "m < n" and tm: "m < length t" and key: "t ! m < k"
    using Suc.prems assms(2) by (auto simp: valid_ids_def)
  obtain a where a: "(dimension_indexes s ! m) (t ! m) = Some (SharedPtr a)" and "a < length (heap s)"
    and "heap s ! a = dim_row (t ! m)"
    using wf_schema_handle [OF assms(1) m key] by blast
  moreover have "handle_of s m (t ! m) = SharedPtr a" using a by (simp add: handle_of_def)
  ultimately show ?case
    using Suc tm by (simp add: scan_tuple_pointer_def res_fold_snoc nth_encode_from take_Suc_conv_app_nth)
qed

lemma scan_pointer_trace:
  assumes "wf_schema k n s" and "\<forall>t \<in> set ts. valid_ids k n t"
  shows "res_fold (\<lambda>acc rel. scan_tuple_pointer n (heap s) rel acc)
           (map (\<lambda>t. FactTableObject (encode_from (handle_of s) 0 t)) ts) acc =
         Inr (acc @ concat (map (map dim_row) ts))"
  using assms(2)
proof (induction ts arbitrary: acc)
  case Nil
  then show ?case by simp
next
  case (Cons t ts)
  then have "scan_tuple_pointer n (heap s) (FactTableObject (encode_from (handle_of s) 0 t)) acc =
               Inr (acc @ map dim_row t)"
    using scan_tuple_pointer_prefix [OF assms(1), of t n acc] by (simp add: valid_ids_def)
  with Cons show ?case by simp
qed

lemma valid_ids_lex_prefix: "t \<in> set (take m (lex_tuples n k)) \<Longrightarrow> valid_ids k n t"
  using set_take_subset [of m "lex_tuples n k"] by (auto simp: set_lex_tuples valid_ids_def)

subsection \<open>Properties of the scans\<close>

text \<open>
  C6. Foreign-key scan. On a well-formed store, scanning a fact table whose rows name
  valid rows of all \<open>n\<close> dimensions succeeds, resolves column \<open>j\<close> of every tuple to
  the row with that id (in scan order), and leaves the store, indexes included,
  unchanged: no \<^verbatim>\<open>operator[]\<close> lookup inserts.
\<close>

theorem scan_foreign_resolves:
  assumes "wf_schema k n s" and "\<forall>r \<in> set ft. valid_ids k n (relations r)"
  shows "scan_foreign n ft s = Inr (s, concat (map (\<lambda>r. map dim_row (relations r)) ft))"
  using scan_foreign_trace [OF assms, of "[]"] by (simp add: scan_foreign_def)

theorem scan_foreign_resolves_witness:
  "scan_foreign 2 [FactTableObject [0, 2]] (schema_spec 3 2) =
     Inr (schema_spec 3 2, [dim_row 0, dim_row 2])"
proof -
  have "scan_foreign 2 [FactTableObject [0, 2]] (schema_spec 3 2) =
          Inr (schema_spec 3 2, concat (map (\<lambda>r. map dim_row (relations r)) [FactTableObject [0, 2]]))"
    by (rule scan_foreign_resolves [OF wf_schema_spec]) (simp add: valid_ids_def)
  then show ?thesis by simp
qed

text \<open>
  C7. Pointer scan. On a well-formed store, scanning a table of handles taken from the
  indexes for valid id tuples succeeds and dereferences column \<open>j\<close> of every tuple to
  the row with that id, in scan order.
\<close>

theorem scan_pointer_resolves:
  assumes "wf_schema k n s" and "\<forall>t \<in> set ts. valid_ids k n t"
  shows "scan_pointer n (heap s) (map (\<lambda>t. FactTableObject (encode_from (handle_of s) 0 t)) ts) =
           Inr (concat (map (map dim_row) ts))"
  using scan_pointer_trace [OF assms, of "[]"] by (simp add: scan_pointer_def)

theorem scan_pointer_resolves_witness:
  "scan_pointer 2 (heap (schema_spec 3 2))
      (map (\<lambda>t. FactTableObject (encode_from (handle_of (schema_spec 3 2)) 0 t)) [[0, 2]]) =
     Inr [dim_row 0, dim_row 2]"
proof -
  have "scan_pointer 2 (heap (schema_spec 3 2))
      (map (\<lambda>t. FactTableObject (encode_from (handle_of (schema_spec 3 2)) 0 t)) [[0, 2]]) =
     Inr (concat (map (map dim_row) [[0, 2]]))"
    by (rule scan_pointer_resolves [OF wf_schema_spec]) (simp add: valid_ids_def)
  then show ?thesis by simp
qed

text \<open>
  C12. Idempotent resolution. On a well-formed store, resolving the same foreign key
  twice yields the same row (same id, same info) both times, and the store after both
  lookups is the store before them.
\<close>

theorem resolve_foreign_idempotent:
  assumes "wf_schema k n s" and "j < n" and "key < k"
  shows "bind_res (resolve_foreign s j key) (\<lambda>(o1, s1).
           bind_res (resolve_foreign s1 j key) (\<lambda>(o2, s2). Inr (o1, o2, s2))) =
         Inr (dim_row key, dim_row key, s)"
  by (simp add: resolve_foreign_hit [OF assms])

theorem resolve_foreign_idempotent_witness:
  "bind_res (resolve_foreign (schema_spec 100 4) 0 7) (\<lambda>(o1, s1).
     bind_res (resolve_foreign s1 0 7) (\<lambda>(o2, s2). Inr (o1, o2, s2))) =
   Inr (dim_row 7, dim_row 7, schema_spec 100 4)"
  by (rule resolve_foreign_idempotent [OF wf_schema_spec]) simp_all

text \<open>
  C14. Lookup miss. A foreign key missing from its index is not reported: the
  \<^verbatim>\<open>operator[]\<close> lookup inserts an empty handle under the key, mutating the index, and
  the dereference of that empty handle is undefined behaviour. The specification calls
  a lookup miss a fatal error.
\<close>

theorem resolve_foreign_miss:
  assumes "j < length (dimension_indexes s)" and "(dimension_indexes s ! j) key = None"
  shows "index_subscript (dimension_indexes s ! j) key = (NullPtr, (dimension_indexes s ! j)(key \<mapsto> NullPtr))
       \<and> resolve_foreign s j key = Inl NullDeref"
  using assms by (simp add: resolve_foreign_def)

theorem resolve_foreign_miss_witness:
  "index_subscript (dimension_indexes (schema_spec 100 4) ! 0) 100 =
     (NullPtr, (dimension_indexes (schema_spec 100 4) ! 0)(100 \<mapsto> NullPtr))
   \<and> resolve_foreign (schema_spec 100 4) 0 100 = Inl NullDeref"
  by (rule resolve_foreign_miss) (simp_all add: schema_spec_def dim_index_def)

end
