(* ===== verification/Driver.thy ===== *)
theory Driver
  imports JoinScan
begin

text \<open>
  The experiment driver: one repetition of \<^verbatim>\<open>evaluate_for_n_dimensions\<close> (build the
  foreign-key and the pointer fact table, scan each, one timing line per build and per
  scan), the repetition loop, the whole function with its store build, and the loop of
  \<^verbatim>\<open>main\<close> over the dimension counts with its skip test. The two output files are
  lists of lines; a line holds the experiment size, the encoding and the measured
  duration. The durations are an input of the model (\<open>dur n i phase kind\<close> is what
  the clock measured for experiment \<open>n\<close>, repetition \<open>i\<close>): time has no functional
  content, and printing them (\<^verbatim>\<open>duration.count() / 1E6\<close>) is formatting.
\<close>

section \<open>Output records\<close>

datatype encoding_kind = Foreign | Pointer

datatype phase = Build | Scan

text \<open>A line of \<^verbatim>\<open>results.csv\<close> or \<^verbatim>\<open>results_build.csv\<close>: the header
  \<^verbatim>\<open>exp,type,time\<close> or \<^verbatim>\<open>n,foreign,t\<close> / \<^verbatim>\<open>n,pointer,t\<close>.\<close>

datatype csv_line = Header | Row nat encoding_kind int

record outputs =
  results :: "csv_line list"
  results_build :: "csv_line list"

type_synonym clock = "nat \<Rightarrow> nat \<Rightarrow> phase \<Rightarrow> encoding_kind \<Rightarrow> int"

section \<open>One repetition\<close>

text \<open>
  The body of \<^verbatim>\<open>for (size_t i = 0; i < number_of_repetitions; i++)\<close>: steps (2a),
  (2b), (3a), (3b), each followed by its output line. The fact tables are locals of the
  iteration; the store carries over.
\<close>

definition one_repetition ::
  "nat \<Rightarrow> int \<Rightarrow> nat \<Rightarrow> (phase \<Rightarrow> encoding_kind \<Rightarrow> int) \<Rightarrow> star_schema \<Rightarrow> outputs \<Rightarrow>
   (star_schema \<times> outputs) result" where
  "one_repetition k L n dur s out =
     bind_res (build_fact_table_RM k L n s) (\<lambda>(rm, _, s1).
     let out1 = out\<lparr>results_build := results_build out @ [Row n Foreign (dur Build Foreign)]\<rparr> in
     bind_res (build_fact_table_RTM k L n s1) (\<lambda>(rtm, _, s2).
     let out2 = out1\<lparr>results_build := results_build out1 @ [Row n Pointer (dur Build Pointer)]\<rparr> in
     bind_res (scan_foreign n rm s2) (\<lambda>(s3, _).
     let out3 = out2\<lparr>results := results out2 @ [Row n Foreign (dur Scan Foreign)]\<rparr> in
     bind_res (scan_pointer n (heap s3) rtm) (\<lambda>_.
     Inr (s3, out3\<lparr>results := results out3 @ [Row n Pointer (dur Scan Pointer)]\<rparr>)))))"

text \<open>\<^verbatim>\<open>evaluate_for_n_dimensions(n, output, output_build)\<close>: step (1), then the loop.\<close>

definition evaluate_for_n_dimensions ::
  "nat \<Rightarrow> int \<Rightarrow> nat \<Rightarrow> clock \<Rightarrow> nat \<Rightarrow> outputs \<Rightarrow> outputs result" where
  "evaluate_for_n_dimensions k L R dur n out =
     bind_res (build_star_schema k n) (\<lambda>s.
     bind_res (res_fold (\<lambda>(s, out) i. one_repetition k L n (dur n i) s out) [0..<R] (s, out))
       (\<lambda>(_, out'). Inr out'))"

section \<open>main\<close>

text \<open>
  The skip test \<^verbatim>\<open>pow(number_of_tuples_in_dimension_tables, i) < number_of_tuples_in_fact_table\<close>.
  \<^verbatim>\<open>pow\<close> computes in \<^verbatim>\<open>double\<close>; \<open>100^i\<close> for \<open>i \<le> 10\<close> is below \<open>2^67\<close>
  with an odd part below \<open>2^53\<close>, so it is exact and the comparison is the integer one.
\<close>

definition skip_experiment :: "nat \<Rightarrow> int \<Rightarrow> nat \<Rightarrow> bool" where
  "skip_experiment k L i \<longleftrightarrow> int (k ^ i) < L"

text \<open>The loop of \<^verbatim>\<open>main\<close> over \<open>i = 2 .. max\<close>, after the two header lines.\<close>

definition main_loop :: "nat \<Rightarrow> int \<Rightarrow> nat \<Rightarrow> nat \<Rightarrow> clock \<Rightarrow> outputs result" where
  "main_loop k L R max_n dur =
     res_fold (\<lambda>out i. if skip_experiment k L i then Inr out
                       else evaluate_for_n_dimensions k L R dur i out)
       [2..<Suc max_n] \<lparr>results = [Header], results_build = [Header]\<rparr>"

definition benchmark_main :: "clock \<Rightarrow> outputs result" where
  "benchmark_main dur =
     main_loop (nat number_of_tuples_in_dimension_tables) number_of_tuples_in_fact_table
       (nat number_of_repetitions) (nat max_number_of_dimension_tables) dur"

section \<open>The lines an experiment writes\<close>

definition rep_lines :: "nat \<Rightarrow> (phase \<Rightarrow> encoding_kind \<Rightarrow> int) \<Rightarrow> phase \<Rightarrow> csv_line list" where
  "rep_lines n dur ph = [Row n Foreign (dur ph Foreign), Row n Pointer (dur ph Pointer)]"

definition experiment_lines :: "nat \<Rightarrow> clock \<Rightarrow> nat \<Rightarrow> phase \<Rightarrow> csv_line list" where
  "experiment_lines R dur n ph = concat (map (\<lambda>i. rep_lines n (dur n i) ph) [0..<R])"

section \<open>Lemmas\<close>

lemma scan_foreign_lex_prefix:
  assumes "wf_schema k n s"
  shows "scan_foreign n (map FactTableObject (take m (lex_tuples n k))) s =
           Inr (s, concat (map (map dim_row) (take m (lex_tuples n k))))"
  using scan_foreign_trace [OF assms, of "map FactTableObject (take m (lex_tuples n k))" "[]"]
    valid_ids_lex_prefix
  by (simp add: scan_foreign_def o_def)

lemma scan_pointer_lex_prefix:
  assumes "wf_schema k n s"
  shows "scan_pointer n (heap s)
           (map (\<lambda>t. FactTableObject (encode_from (handle_of s) 0 t)) (take m (lex_tuples n k))) =
         Inr (concat (map (map dim_row) (take m (lex_tuples n k))))"
  using scan_pointer_trace [OF assms, of "take m (lex_tuples n k)" "[]"] valid_ids_lex_prefix
  by (simp add: scan_pointer_def)

lemma one_repetition_ok:
  assumes "wf_schema k n s" and "0 < n" and "n < 2 ^ 64" and "L \<le> INT_MAX"
  shows "one_repetition k L n dur s out =
           Inr (s, out\<lparr>results := results out @ rep_lines n dur Scan,
                       results_build := results_build out @ rep_lines n dur Build\<rparr>)"
  by (simp add: one_repetition_def build_fact_table_RM_depth [OF assms]
                build_fact_table_RTM_depth [OF assms] scan_foreign_lex_prefix [OF assms(1)]
                scan_pointer_lex_prefix [OF assms(1)] rep_lines_def)

lemma repetitions_ok:
  assumes "wf_schema k n s" and "0 < n" and "n < 2 ^ 64" and "L \<le> INT_MAX"
  shows "res_fold (\<lambda>(s, out) i. one_repetition k L n (dur n i) s out) [0..<R] (s, out) =
           Inr (s, out\<lparr>results := results out @ experiment_lines R dur n Scan,
                       results_build := results_build out @ experiment_lines R dur n Build\<rparr>)"
proof (induction R)
  case 0
  then show ?case by (simp add: experiment_lines_def)
next
  case (Suc R)
  then show ?case
    by (simp add: res_fold_snoc one_repetition_ok [OF assms] experiment_lines_def)
qed

lemma evaluate_for_n_dimensions_ok:
  assumes "0 < n" and "n < 2 ^ 64" and "L \<le> INT_MAX"
  shows "evaluate_for_n_dimensions k L R dur n out =
           Inr (out\<lparr>results := results out @ experiment_lines R dur n Scan,
                    results_build := results_build out @ experiment_lines R dur n Build\<rparr>)"
  using repetitions_ok [OF wf_schema_spec assms, where dur = dur and R = R and out = out]
  by (simp add: evaluate_for_n_dimensions_def build_star_schema_spec)

lemma main_loop_fold:
  assumes "\<forall>i \<in> set xs. 0 < i \<and> i < 2 ^ 64" and "L \<le> INT_MAX"
  shows "res_fold (\<lambda>out i. if skip_experiment k L i then Inr out
                          else evaluate_for_n_dimensions k L R dur i out) xs out =
           Inr (out\<lparr>results := results out @
                         concat (map (\<lambda>n. experiment_lines R dur n Scan) (filter (\<lambda>i. \<not> skip_experiment k L i) xs)),
                    results_build := results_build out @
                         concat (map (\<lambda>n. experiment_lines R dur n Build) (filter (\<lambda>i. \<not> skip_experiment k L i) xs))\<rparr>)"
  using assms(1)
proof (induction xs arbitrary: out)
  case Nil
  then show ?case by simp
next
  case (Cons x xs)
  then show ?case
    by (simp add: evaluate_for_n_dimensions_ok [OF _ _ assms(2)])
qed

lemma skip_experiment_main: "filter (\<lambda>i. \<not> skip_experiment 100 50000000 i) [2..<11] = [4..<11]"
  by (simp add: skip_experiment_def upt_rec)

lemma length_experiment_lines: "length (experiment_lines R dur n ph) = 2 * R"
  by (simp add: experiment_lines_def rep_lines_def length_concat_map_const)

subsection \<open>Properties of the driver\<close>

text \<open>
  C15. Emission. For \<open>0 < n < 2^64\<close> and a cap that fits an \<^verbatim>\<open>int\<close>,
  \<^verbatim>\<open>evaluate_for_n_dimensions\<close> runs to completion and appends to each output file
  exactly \<open>2 R\<close> lines: per repetition \<open>i\<close>, in order, the foreign-key line and then
  the pointer line of that phase, each with experiment size \<open>n\<close> and the duration
  measured for it.
\<close>

theorem evaluate_for_n_dimensions_lines:
  assumes "0 < n" and "n < 2 ^ 64" and "L \<le> INT_MAX"
  shows "\<exists>out'. evaluate_for_n_dimensions k L R dur n out = Inr out'
           \<and> results out' = results out @ concat (map (\<lambda>i. [Row n Foreign (dur n i Scan Foreign),
                                                      Row n Pointer (dur n i Scan Pointer)]) [0..<R])
           \<and> results_build out' = results_build out @ concat (map (\<lambda>i. [Row n Foreign (dur n i Build Foreign),
                                                      Row n Pointer (dur n i Build Pointer)]) [0..<R])
           \<and> length (results out') = length (results out) + 2 * R
           \<and> length (results_build out') = length (results_build out) + 2 * R"
  using evaluate_for_n_dimensions_ok [OF assms, of k R dur out] length_experiment_lines [of R dur n]
  by (simp add: experiment_lines_def rep_lines_def)

theorem evaluate_for_n_dimensions_lines_witness:
  "\<exists>out'. evaluate_for_n_dimensions 100 50000000 10 (\<lambda>n i ph kd. int i) 4
              \<lparr>results = [], results_build = []\<rparr> = Inr out'
     \<and> results out' = [] @ concat (map (\<lambda>i. [Row 4 Foreign (int i), Row 4 Pointer (int i)]) [0..<10])
     \<and> results_build out' = [] @ concat (map (\<lambda>i. [Row 4 Foreign (int i), Row 4 Pointer (int i)]) [0..<10])
     \<and> length (results out') = length ([] :: csv_line list) + 2 * 10
     \<and> length (results_build out') = length ([] :: csv_line list) + 2 * 10"
  using evaluate_for_n_dimensions_lines [of 4 50000000 100 10 "\<lambda>n i ph kd. int i"
      "\<lparr>results = [], results_build = []\<rparr>"]
  by (simp add: INT_MAX_def)

text \<open>
  C16. The program. \<^verbatim>\<open>main\<close> never reaches undefined behaviour: it skips the
  dimension counts \<open>2\<close> and \<open>3\<close> (\<open>100^i\<close> below the cap of fifty million), runs the
  experiments \<open>4..10\<close> in order, ten repetitions each, and writes after the header
  exactly their lines to \<^verbatim>\<open>results.csv\<close> (scans) and \<^verbatim>\<open>results_build.csv\<close> (builds).
\<close>

theorem benchmark_main_output:
  "benchmark_main dur =
     Inr \<lparr>results = Header # concat (map (\<lambda>n. experiment_lines 10 dur n Scan) [4..<11]),
          results_build = Header # concat (map (\<lambda>n. experiment_lines 10 dur n Build) [4..<11])\<rparr>"
proof -
  let ?F = "\<lambda>out i. if skip_experiment 100 50000000 i then Inr out
                    else evaluate_for_n_dimensions 100 50000000 10 dur i out"
  let ?o = "\<lparr>results = [Header], results_build = [Header]\<rparr>"
  have run: "benchmark_main dur = res_fold ?F [2..<11] ?o"
    by (simp add: benchmark_main_def main_loop_def number_of_tuples_in_dimension_tables_def
                  number_of_tuples_in_fact_table_def number_of_repetitions_def
                  max_number_of_dimension_tables_def del: upt_Suc)
  have "res_fold ?F [2..<11] ?o =
          Inr (?o\<lparr>results := results ?o @
                    concat (map (\<lambda>n. experiment_lines 10 dur n Scan) (filter (\<lambda>i. \<not> skip_experiment 100 50000000 i) [2..<11])),
                  results_build := results_build ?o @
                    concat (map (\<lambda>n. experiment_lines 10 dur n Build) (filter (\<lambda>i. \<not> skip_experiment 100 50000000 i) [2..<11]))\<rparr>)"
    by (rule main_loop_fold) (auto simp: INT_MAX_def)
  then show ?thesis
    unfolding run skip_experiment_main by simp
qed

end
