(* ===== verification/Spec2Isabelle.thy ===== *)
theory Spec2Isabelle
  imports Driver
begin

text \<open>
  \<^bold>\<open>A verification development for tresqool's star-join benchmark\<close>
  (\<^verbatim>\<open>src/benchmark.cpp\<close>).

  \<^bold>\<open>The program.\<close> One C++ file compares two physical encodings of a star-schema
  fact table. \<^verbatim>\<open>evaluate_for_n_dimensions\<close> builds \<open>n\<close> dimension tables of
  \<^verbatim>\<open>number_of_tuples_in_dimension_tables\<close> rows (\<^verbatim>\<open>DimensionObject\<close> with
  \<^verbatim>\<open>id_ = j\<close> and \<^verbatim>\<open>info_ = to_string(j)\<close>) and, per table, an
  \<^verbatim>\<open>unordered_map\<close> index from id to a \<^verbatim>\<open>shared_ptr\<close> holding a separately
  allocated copy of the row. Per repetition it calls the enumerator
  \<^verbatim>\<open>get_fact_table\<close> twice, with the callback \<^verbatim>\<open>add_foreign_key_to_tuple\<close> (store
  the row id) and \<^verbatim>\<open>add_pointer_to_tuple\<close> (store the row's handle), and then scans
  each fact table, resolving every column through the index (foreign keys) or by
  dereferencing the handle (pointers). \<^verbatim>\<open>main\<close> runs the experiment for the
  dimension counts \<open>2..10\<close> whose product \<open>100^i\<close> reaches the cap
  \<^verbatim>\<open>number_of_tuples_in_fact_table\<close>, and writes one timing line per build and scan.

  \<^bold>\<open>Library layout\<close> (each theory imports the ones it calls).
  \<^item> \<open>Prelude\<close>: the error type for the code's undefined behaviours (out-of-range
    \<^verbatim>\<open>operator[]\<close>, \<^verbatim>\<open>pop_back\<close> on an empty vector, null \<^verbatim>\<open>shared_ptr\<close>
    dereference, signed overflow) and \<open>error + 'a\<close> results with \<open>bind_res\<close>;
    checked \<open>vec_at\<close>, \<open>pop_back\<close>, \<open>int_inc\<close> (\<^verbatim>\<open>int\<close> \<^verbatim>\<open>++\<close>, 32 bits), the
    \<^verbatim>\<open>size_t\<close> subtraction \<open>size_t_minus_one\<close> (through \<open>64 word\<close>), the fallible
    \<^verbatim>\<open>for\<close> loop \<open>res_fold\<close>; the \<^verbatim>\<open>constexpr\<close> constants; shared list lemmas.
  \<^item> \<open>DecimalString\<close>: \<^verbatim>\<open>std::to_string\<close> on naturals (\<open>to_string\<close>), the
    \<^verbatim>\<open>info_\<close> payload of a row, modelled from the library's specification.
  \<^item> \<open>DimensionStore\<close>: \<^verbatim>\<open>DimensionObject\<close>, \<^verbatim>\<open>shared_ptr\<close> (\<open>NullPtr\<close> or
    an address), the heap of separately allocated objects (\<open>make_shared\<close> appends,
    \<open>deref\<close>), \<^verbatim>\<open>unordered_map::operator[]\<close> (\<open>index_subscript\<close>, which inserts a
    null pointer on a miss), and the build loops of \<^verbatim>\<open>evaluate_for_n_dimensions\<close>
    (\<open>add_dimension_row\<close>, \<open>add_dimension\<close>, \<open>build_star_schema\<close>). The closed form
    \<open>schema_spec\<close> of the built store and its invariant \<open>wf_schema\<close>: every index
    entry of dimension \<open>d\<close>, row \<open>j\<close> is a handle to a copy of row \<open>j\<close>, and the
    handles are pairwise distinct allocations.
  \<^item> \<open>Enumerator\<close>: \<^verbatim>\<open>FactTableObject\<close>, the lambda's captured state
    \<open>enum_state\<close>, the recursive lambda \<open>rec_pointer\<close> (loop and recursion in one
    terminating \<open>function\<close>: the depth is bounded by the \<^verbatim>\<open>size_t\<close> value of
    \<^verbatim>\<open>n - 1\<close>, the loop by \<open>k\<close>), \<open>get_fact_table\<close>; the reference enumeration
    \<open>lex_tuples\<close> (cartesian product, column 0 slowest) and its lexicographic order.
    The callback is a parameter (\<open>nat \<Rightarrow> nat \<Rightarrow> 'c \<Rightarrow> ('a \<times> 'c) result\<close>: row
    value and new callback state), so that both encodings share one enumerator, as in
    the C++ template.
  \<^item> \<open>Encoders\<close>: the callbacks \<open>add_foreign_key_to_tuple\<close> (row id) and
    \<open>add_pointer_to_tuple\<close> (handle read through \<^verbatim>\<open>operator[]\<close> of the index, whose
    possible insertion is written back to the store), and the two builds
    \<open>build_fact_table_RM\<close> / \<open>build_fact_table_RTM\<close>.
  \<^item> \<open>JoinScan\<close>: the two scans of a fact table, \<open>scan_foreign\<close> (index lookup via
    \<open>resolve_foreign\<close>, again \<^verbatim>\<open>operator[]\<close>) and \<open>scan_pointer\<close> (dereference);
    each returns the trace of resolved rows, which is what the timed loops compute.
  \<^item> \<open>Driver\<close>: one repetition, \<open>evaluate_for_n_dimensions\<close>, the dimension-count
    filter \<open>skip_experiment\<close>, \<open>main_loop\<close> and \<open>benchmark_main\<close>; the timing lines
    are \<open>csv_line\<close> values, the clock is a parameter.
  \<^item> \<open>Spec2Isabelle\<close> (this theory): properties spanning the store, both encoders and
    both scans.

  \<^bold>\<open>What is proved.\<close> For \<open>0 < n < 2^64\<close>, a callback without side effect and a
  cap \<open>L \<le> INT_MAX\<close>, the enumerator returns exactly the first \<open>L\<close> tuples of the
  lexicographic cartesian product, encoded (C1), hence \<open>min L (k^n)\<close> of them (C3),
  strictly increasing (C9); its \<^verbatim>\<open>int\<close> counter ends at \<open>min L (k^n)\<close> and never
  overflows (C8). The build loops produce a well-formed store (C5). On a well-formed
  store both callbacks are side-effect free, so the two fact tables hold the ids resp.
  the handles of the same tuples (C10, C11, C4); the scans resolve every column to the
  row it names (C6, C7), and the foreign-key and pointer encodings resolve the
  identical sequence of rows (C2). Resolution through the index changes nothing and is
  idempotent (C12); a missing key inserts a null pointer and the dereference fails
  (C14). The driver emits, per experiment, one line per build and scan of every
  repetition (C15), and \<open>main\<close> runs exactly the dimension counts \<open>4..10\<close> (C16).
  For \<open>n = 0\<close> the encoders subscript the empty dimension vector on their first
  call (C13), where the specification promises an empty fact table.

  \<^bold>\<open>Proof structure.\<close> The enumerator rests on \<open>rec_pointer_correct\<close>, by
  computation induction over \<open>rec_pointer\<close>: a loop level offers the capped emission
  (\<open>emitted\<close>) exactly the tuples it still owes (\<open>level_out\<close>), restores the tuple
  under construction, and leaves the callback's state alone. The store rests on
  \<open>build_star_schema_spec\<close> (the loops compute \<open>schema_spec\<close>), the scans on trace
  lemmas for \<open>res_fold\<close> over a prefix.

  \<^bold>\<open>Bounds.\<close> No fuel is used: every loop of the code is bounded and every model is
  a terminating function. \<^verbatim>\<open>size_t\<close> is 64 bits and \<^verbatim>\<open>int\<close> 32 bits; the
  hypotheses \<open>n < 2^64\<close> and \<open>L \<le> INT_MAX\<close> are the ranges in which the code's
  arithmetic does not wrap (the program's own values, \<open>n \<le> 10\<close> and
  \<open>L = 5 \<cdot> 10^7\<close>, lie inside).

  \<^bold>\<open>Not modelled.\<close> The clock (\<^verbatim>\<open>std::chrono\<close>), console output and file
  handles: they carry no functional content, the durations are an uninterpreted
  parameter. Memory release of \<^verbatim>\<open>shared_ptr\<close> is not modelled (the heap only grows,
  nothing is freed before the program ends). Vectors are unbounded lists and the
  recursion has no stack limit: \<^verbatim>\<open>std::vector::max_size\<close> (about \<open>2^60\<close> elements)
  and the call stack only matter for dimension counts far beyond the program's
  \<open>n \<le> 10\<close>, in particular for the wrapped \<^verbatim>\<open>size_t\<close> depth of \<open>n = 0\<close>
  (\<open>size_t_minus_one 0 = 2^64 - 1\<close>), where the C++ enumerator exhausts memory or
  stack instead of returning; the model therefore states no result of the enumerator
  for \<open>n = 0\<close>.

  \<^bold>\<open>Plan.\<close> Next: the hash-map internals are abstracted to a partial map; a
  refinement to an \<open>AList\<close>-based bucket model and the aliasing of the two fact
  tables' shared handles (use counts) remain to be modelled.
\<close>

section \<open>Properties across components\<close>

text \<open>
  C2. Encoding equivalence. For \<open>0 < n < 2^64\<close> dimensions and a cap that fits an
  \<^verbatim>\<open>int\<close>, on the store the build loops produce, both fact tables are built without
  error, and the foreign-key scan (index lookups) and the pointer scan (dereferences)
  resolve the same sequence of rows: for every tuple position and column the same
  \<^verbatim>\<open>DimensionObject\<close>, namely the row whose id is the index of the first
  \<open>min L (k^n)\<close> lexicographic tuples; \<open>n\<close> rows per tuple.
\<close>

theorem encoding_equivalence:
  assumes "0 < n" and "n < 2 ^ 64" and "L \<le> INT_MAX" and "build_star_schema k n = Inr s"
  shows "\<exists>rm rtm R. build_fact_table_RM k L n s = Inr (rm, [], s)
           \<and> build_fact_table_RTM k L n s = Inr (rtm, [], s)
           \<and> scan_foreign n rm s = Inr (s, R)
           \<and> scan_pointer n (heap s) rtm = Inr R
           \<and> R = concat (map (map dim_row) (take (nat L) (lex_tuples n k)))
           \<and> length R = n * min (nat L) (k ^ n)"
proof -
  have s: "s = schema_spec k n" using assms(4) by (simp add: build_star_schema_spec)
  then have wf: "wf_schema k n s" by (simp add: wf_schema_spec)
  have "length (concat (map (map dim_row) (take (nat L) (lex_tuples n k)))) = min (nat L) (k ^ n) * n"
    using valid_ids_lex_prefix by (simp add: length_concat_map_const valid_ids_def min.commute)
  then show ?thesis
    using build_fact_table_RM_depth [OF wf assms(1-3)] build_fact_table_RTM_depth [OF wf assms(1-3)]
      scan_foreign_lex_prefix [OF wf] scan_pointer_lex_prefix [OF wf]
    by simp
qed

theorem encoding_equivalence_witness:
  "\<exists>rm rtm R. build_fact_table_RM 3 5 2 (schema_spec 3 2) = Inr (rm, [], schema_spec 3 2)
     \<and> build_fact_table_RTM 3 5 2 (schema_spec 3 2) = Inr (rtm, [], schema_spec 3 2)
     \<and> scan_foreign 2 rm (schema_spec 3 2) = Inr (schema_spec 3 2, R)
     \<and> scan_pointer 2 (heap (schema_spec 3 2)) rtm = Inr R
     \<and> R = concat (map (map dim_row) (take (nat 5) (lex_tuples 2 3)))
     \<and> length R = 2 * min (nat 5) (3 ^ 2)"
  by (rule encoding_equivalence) (simp_all add: INT_MAX_def build_star_schema_spec)

end
